theory Spec2Isabelle
  imports Complex_Main "HOL-Library.Word"
begin

unbundle bit_operations_syntax

section \<open>JavaScript strings\<close>

text \<open>
  A JavaScript string is a sequence of UTF-16 code units; \<^verbatim>\<open>length\<close>,
  \<^verbatim>\<open>substring\<close> and the regular expressions of the sources (none carries the
  \<^verbatim>\<open>u\<close> flag) all count and match code units.  ASCII literals are written with
  \<open>js\<close>; other characters by their code unit.
\<close>

type_synonym jschar = "16 word"
type_synonym jsstring = "jschar list"

definition js :: "string \<Rightarrow> jsstring" where
  "js s = map of_char s"

text \<open>The class \<^verbatim>\<open>\s\<close>: ECMAScript WhiteSpace and LineTerminator code points.\<close>

definition is_space :: "jschar \<Rightarrow> bool" where
  "is_space c \<longleftrightarrow>
     (0x09 \<le> c \<and> c \<le> 0x0D) \<or> c = 0x20 \<or> c = 0xA0 \<or> c = 0x1680 \<or>
     (0x2000 \<le> c \<and> c \<le> 0x200A) \<or> c = 0x2028 \<or> c = 0x2029 \<or> c = 0x202F \<or>
     c = 0x205F \<or> c = 0x3000 \<or> c = 0xFEFF"

text \<open>The class \<^verbatim>\<open>\d\<close> is \<^verbatim>\<open>[0-9]\<close>; \<^verbatim>\<open>\w\<close> is \<^verbatim>\<open>[A-Za-z0-9_]\<close> and \<^verbatim>\<open>\W\<close> its complement.\<close>

definition is_digit :: "jschar \<Rightarrow> bool" where
  "is_digit c \<longleftrightarrow> 0x30 \<le> c \<and> c \<le> 0x39"

definition is_word :: "jschar \<Rightarrow> bool" where
  "is_word c \<longleftrightarrow>
     (0x41 \<le> c \<and> c \<le> 0x5A) \<or> (0x61 \<le> c \<and> c \<le> 0x7A) \<or> is_digit c \<or> c = 0x5F"

text \<open>\<^verbatim>\<open>String.prototype.trim\<close> removes the same code units as \<^verbatim>\<open>\s\<close> from both ends.\<close>

definition trim :: "jsstring \<Rightarrow> jsstring" where
  "trim s = rev (dropWhile is_space (rev (dropWhile is_space s)))"

section \<open>Browser extension: \<^verbatim>\<open>LocalAITranslator.splitText\<close>\<close>

text \<open>
  The sentence terminators of the class \<^verbatim>\<open>[.!?\<dots>]\<close> in \<^verbatim>\<open>splitText\<close>: the ASCII
  full stop, exclamation mark and question mark, and the ideographic full stop U+3002,
  the fullwidth exclamation mark U+FF01 and the fullwidth question mark U+FF1F.
\<close>

definition is_terminator :: "jschar \<Rightarrow> bool" where
  "is_terminator c \<longleftrightarrow>
     c = 0x2E \<or> c = 0x21 \<or> c = 0x3F \<or> c = 0x3002 \<or> c = 0xFF01 \<or> c = 0xFF1F"

text \<open>
  One sticky match of \<^verbatim>\<open>([.!?\<dots>]+\s*)\<close> at the head of a string: the longest run of
  terminators (at least one), then the longest run of white space.  The two classes are
  disjoint, so the greedy match never backtracks.  The result is the matched text (which
  is also capture group 1) and the rest of the string.
\<close>

definition match_separator :: "jsstring \<Rightarrow> (jsstring \<times> jsstring) option" where
  "match_separator s =
     (case s of
        [] \<Rightarrow> None
      | c # _ \<Rightarrow>
          if is_terminator c then
            let rest = dropWhile is_terminator s in
            Some (takeWhile is_terminator s @ takeWhile is_space rest, dropWhile is_space rest)
          else None)"

lemma match_separator_shorter:
  "match_separator s = Some (m, r) \<Longrightarrow> length r < length s"
proof -
  assume a: "match_separator s = Some (m, r)"
  then obtain c cs where s: "s = c # cs" and t: "is_terminator c"
    by (auto simp: match_separator_def split: list.splits if_splits)
  from a s t have r: "r = dropWhile is_space (dropWhile is_terminator cs)"
    by (simp add: match_separator_def Let_def)
  have "length r \<le> length cs"
    unfolding r
    by (rule order_trans [OF length_dropWhile_le length_dropWhile_le])
  with s show ?thesis by simp
qed

text \<open>
  \<^verbatim>\<open>text.split(/([.!?\<dots>]+\s*)/)\<close>, after the ECMAScript algorithm for splitting at a
  regular expression: scan from the end \<open>p\<close> of the previous separator; at the first
  position where the expression matches, emit the text since \<open>p\<close> and then the capture
  group, and go on behind the match; at the end, emit the text since \<open>p\<close>.  The expression
  cannot match the empty string, so the algorithm's guard for empty matches never applies.
  \<open>acc\<close> is the text between \<open>p\<close> and the scanning position.
\<close>

function split_from :: "jsstring \<Rightarrow> jsstring \<Rightarrow> jsstring list" where
  "split_from acc s =
     (case s of
        [] \<Rightarrow> [acc]
      | c # cs \<Rightarrow>
          (case match_separator s of
             Some (m, r) \<Rightarrow> acc # m # split_from [] r
           | None \<Rightarrow> split_from (acc @ [c]) cs))"
  by pat_completeness auto
termination
  by (relation "measure (\<lambda>(acc, s). length s)") (auto dest: match_separator_shorter)

declare split_from.simps [simp del]

definition split_sentences :: "jsstring \<Rightarrow> jsstring list" where
  "split_sentences text = split_from [] text"

text \<open>
  The \<^verbatim>\<open>for (const sentence of sentences)\<close> loop of \<^verbatim>\<open>splitText\<close>, with the two
  variables it updates: the list \<open>segments\<close> and \<open>currentSegment\<close>.  A string is truthy
  when it is not empty; \<^verbatim>\<open>substring(0, n)\<close> and \<^verbatim>\<open>substring(n)\<close> are \<open>take n\<close> and
  \<open>drop n\<close>.
\<close>

fun splitText_loop ::
  "nat \<Rightarrow> jsstring list \<Rightarrow> jsstring list \<Rightarrow> jsstring \<Rightarrow> jsstring list \<times> jsstring" where
  "splitText_loop maxLength [] segments currentSegment = (segments, currentSegment)"
| "splitText_loop maxLength (sentence # sentences) segments currentSegment =
     (if length currentSegment + length sentence \<le> maxLength then
        splitText_loop maxLength sentences segments (currentSegment @ sentence)
      else if currentSegment \<noteq> [] then
        splitText_loop maxLength sentences (segments @ [currentSegment]) sentence
      else
        splitText_loop maxLength sentences
          (segments @ [take maxLength sentence]) (drop maxLength sentence))"

definition splitText :: "jsstring \<Rightarrow> nat \<Rightarrow> jsstring list" where
  "splitText text maxLength =
     (if length text \<le> maxLength then [text]
      else
        (case splitText_loop maxLength (split_sentences text) [] [] of
           (segments, currentSegment) \<Rightarrow>
             if currentSegment \<noteq> [] then segments @ [currentSegment] else segments))"


section \<open>Browser extension: \<^verbatim>\<open>LocalAITranslator.shouldTranslate\<close>\<close>

text \<open>\<^verbatim>\<open>/^[\d\s\W]+$/.test(text)\<close>: the text is not empty and each of its code units is
  in the class.  Neither anchor has the \<^verbatim>\<open>m\<close> flag, so they are the ends of the text.\<close>

definition only_digits_spaces_symbols :: "jsstring \<Rightarrow> bool" where
  "only_digits_spaces_symbols text \<longleftrightarrow>
     text \<noteq> [] \<and> list_all (\<lambda>c. is_digit c \<or> is_space c \<or> \<not> is_word c) text"

text \<open>The class of the code units U+4E00 to U+9FFF (CJK unified ideographs).\<close>

definition is_chinese :: "jschar \<Rightarrow> bool" where
  "is_chinese c \<longleftrightarrow> 0x4E00 \<le> c \<and> c \<le> 0x9FFF"

text \<open>
  \<^verbatim>\<open>text.match(/[...]/g)\<close> with that class is the list of the matching code units, or
  \<^verbatim>\<open>null\<close> (falsy) when there is none.  The quotient is taken in the reals.
\<close>

definition chineseRatio :: "jsstring \<Rightarrow> real" where
  "chineseRatio text =
     (let chineseChars = filter is_chinese text in
      if chineseChars \<noteq> [] then real (length chineseChars) / real (length text) else 0)"

definition shouldTranslate :: "jsstring \<Rightarrow> bool" where
  "shouldTranslate text =
     (if length text < 3 then False
      else if only_digits_spaces_symbols text then False
      else if chineseRatio text > 8 / 10 then False
      else True)"

section \<open>Translation service: cache key\<close>

type_synonym byte = "8 word"

definition is_high_surrogate :: "jschar \<Rightarrow> bool" where
  "is_high_surrogate c \<longleftrightarrow> 0xD800 \<le> c \<and> c \<le> 0xDBFF"

definition is_low_surrogate :: "jschar \<Rightarrow> bool" where
  "is_low_surrogate c \<longleftrightarrow> 0xDC00 \<le> c \<and> c \<le> 0xDFFF"

definition code_point :: "jschar \<Rightarrow> jschar \<Rightarrow> 32 word" where
  "code_point hi lo = 0x10000 + push_bit 10 (ucast (hi AND 0x3FF)) + ucast (lo AND 0x3FF)"

text \<open>
  \<^verbatim>\<open>Buffer.from(text)\<close>: the UTF-8 encoding of the string.  A surrogate pair is one code
  point of four bytes; a surrogate without its partner is encoded as U+FFFD.
\<close>

fun utf8_encode :: "jsstring \<Rightarrow> byte list" where
  "utf8_encode [] = []"
| "utf8_encode (c # cs) =
     (if c < 0x80 then ucast c # utf8_encode cs
      else if c < 0x800 then
        [0xC0 OR ucast (drop_bit 6 c), 0x80 OR ucast (c AND 0x3F)] @ utf8_encode cs
      else if is_high_surrogate c then
        (case cs of
           [] \<Rightarrow> [0xEF, 0xBF, 0xBD]
         | d # ds \<Rightarrow>
             if is_low_surrogate d then
               [0xF0 OR ucast (drop_bit 18 (code_point c d)),
                0x80 OR ucast (drop_bit 12 (code_point c d) AND 0x3F),
                0x80 OR ucast (drop_bit 6 (code_point c d) AND 0x3F),
                0x80 OR ucast (code_point c d AND 0x3F)] @ utf8_encode ds
             else [0xEF, 0xBF, 0xBD] @ utf8_encode cs)
      else if is_low_surrogate c then [0xEF, 0xBF, 0xBD] @ utf8_encode cs
      else
        [0xE0 OR ucast (drop_bit 12 c), 0x80 OR ucast (drop_bit 6 c AND 0x3F),
         0x80 OR ucast (c AND 0x3F)] @ utf8_encode cs)"

text \<open>\<^verbatim>\<open>.toString('base64')\<close>: the standard alphabet, padded with \<^verbatim>\<open>=\<close>.\<close>

definition base64_char :: "byte \<Rightarrow> jschar" where
  "base64_char v =
     (if v < 26 then 0x41 + ucast v
      else if v < 52 then 0x61 + ucast (v - 26)
      else if v < 62 then 0x30 + ucast (v - 52)
      else if v = 62 then 0x2B
      else 0x2F)"

fun base64 :: "byte list \<Rightarrow> jsstring" where
  "base64 [] = []"
| "base64 [a] =
     [base64_char (drop_bit 2 a), base64_char (push_bit 4 (a AND 0x03)), 0x3D, 0x3D]"
| "base64 [a, b] =
     [base64_char (drop_bit 2 a), base64_char (push_bit 4 (a AND 0x03) OR drop_bit 4 b),
      base64_char (push_bit 2 (b AND 0x0F)), 0x3D]"
| "base64 (a # b # c # rest) =
     [base64_char (drop_bit 2 a), base64_char (push_bit 4 (a AND 0x03) OR drop_bit 4 b),
      base64_char (push_bit 2 (b AND 0x0F) OR drop_bit 6 c), base64_char (c AND 0x3F)]
     @ base64 rest"

definition cacheKey :: "jsstring \<Rightarrow> jsstring \<Rightarrow> jsstring \<Rightarrow> jsstring \<Rightarrow> jsstring" where
  "cacheKey model source_lang target_lang text =
     model @ js ''_'' @ source_lang @ js ''_'' @ target_lang @ js ''_'' @
     take 50 (base64 (utf8_encode text))"


section \<open>Translation service: the model runtime\<close>

text \<open>
  \<^verbatim>\<open>getTranslationPrompt\<close> looks the target language up in the object of the three
  instruction templates, \<^verbatim>\<open>prompts[targetLang] || prompts['zh-tw']\<close>, and puts the
  text into the template.  The fixed wording of the templates is not spelled out: a
  prompt is its template and the embedded text.  The lookup also finds the members that
  every object inherits from \<^verbatim>\<open>Object.prototype\<close>; they are functions or objects, hence
  truthy, so for a target language with such a name the result is that member and not a
  prompt string.
\<close>

datatype template = Template_zh_tw | Template_zh_cn | Template_en

datatype prompt =
  Prompt template jsstring
| InheritedMember jsstring

definition object_prototype_members :: "jsstring list" where
  "object_prototype_members =
     [js ''constructor'', js ''hasOwnProperty'', js ''isPrototypeOf'',
      js ''propertyIsEnumerable'', js ''toLocaleString'', js ''toString'', js ''valueOf'',
      js ''__proto__'', js ''__defineGetter__'', js ''__defineSetter__'',
      js ''__lookupGetter__'', js ''__lookupSetter__'']"

definition getTranslationPrompt :: "jsstring \<Rightarrow> jsstring \<Rightarrow> jsstring \<Rightarrow> prompt" where
  "getTranslationPrompt text sourceLang targetLang =
     (if targetLang = js ''zh-tw'' then Prompt Template_zh_tw text
      else if targetLang = js ''zh-cn'' then Prompt Template_zh_cn text
      else if targetLang = js ''en'' then Prompt Template_en text
      else if targetLang \<in> set object_prototype_members then InheritedMember targetLang
      else Prompt Template_zh_tw text)"

text \<open>
  The request posted to \<^verbatim>\<open>/api/generate\<close>; its other fields (\<^verbatim>\<open>stream\<close> and the
  sampling options) are constants.  The model runtime is outside the program: it is a
  parameter that answers a request with the data of its reply, or fails (time-out after 30
  seconds, transport error, error status) with a message.
\<close>

record ollama_request =
  request_model :: jsstring
  request_prompt :: prompt

record stats =
  total_duration :: nat
  load_duration :: nat
  prompt_eval_count :: nat
  eval_count :: nat

record ollama_data = stats +
  response :: jsstring

type_synonym runtime = "ollama_request \<Rightarrow> jsstring + ollama_data"

text \<open>
  The messages of the service.  \<open>TranslateFailed m\<close> is the message that
  \<^verbatim>\<open>translateWithOllama\<close> throws for the runtime's failure \<open>m\<close>; the other four are the
  messages of the validation failures.
\<close>

datatype error =
  EmptyText | TextTooLong | EmptyTexts | TooManyTexts | TranslateFailed jsstring

record translation_result =
  success :: bool
  translation :: jsstring
  result_model :: jsstring
  stats :: stats

text \<open>
  \<^verbatim>\<open>.replace(/^LABEL[\<dots>]\s*/i, '')\<close> for a label of CJK characters followed by the fullwidth
  colon U+FF1A or the ASCII colon: when the string starts with the label and a colon,
  these and the white space behind them are removed; otherwise the string is unchanged.
  None of these characters has a case variant, so the \<^verbatim>\<open>i\<close> flag changes nothing.
\<close>

definition replace_label :: "jsstring \<Rightarrow> jsstring \<Rightarrow> jsstring" where
  "replace_label label s =
     (case drop (length label) s of
        [] \<Rightarrow> s
      | c # rest \<Rightarrow>
          if take (length label) s = label \<and> (c = 0xFF1A \<or> c = 0x3A)
          then dropWhile is_space rest else s)"

text \<open>The three labels, in Traditional Chinese: "translation result", "translated text",
  "translation".\<close>

definition label_result :: jsstring where
  "label_result = [0x7FFB, 0x8B6F, 0x7D50, 0x679C]"

definition label_translated_text :: jsstring where
  "label_translated_text = [0x8B6F, 0x6587]"

definition label_translation :: jsstring where
  "label_translation = [0x7FFB, 0x8B6F]"

definition clean_translation :: "jsstring \<Rightarrow> jsstring" where
  "clean_translation raw =
     trim (replace_label label_translation
       (replace_label label_translated_text
         (replace_label label_result raw)))"

definition ollama_request_for ::
  "jsstring \<Rightarrow> jsstring \<Rightarrow> jsstring \<Rightarrow> jsstring \<Rightarrow> ollama_request" where
  "ollama_request_for text sourceLang targetLang model =
     \<lparr>request_model = model,
      request_prompt = getTranslationPrompt text sourceLang targetLang\<rparr>"

text \<open>The object that \<^verbatim>\<open>translateWithOllama\<close> returns for the data of a reply.\<close>

definition ollama_result :: "jsstring \<Rightarrow> ollama_data \<Rightarrow> translation_result" where
  "ollama_result model data =
     \<lparr>success = True,
      translation = clean_translation (response data),
      result_model = model,
      stats = \<lparr>total_duration = total_duration data,
               load_duration = load_duration data,
               prompt_eval_count = prompt_eval_count data,
               eval_count = eval_count data\<rparr>\<rparr>"

text \<open>
  \<^verbatim>\<open>translateWithOllama\<close>: one request to the runtime.  A failure is rethrown as
  \<open>TranslateFailed\<close>; a reply is cleaned and returned with \<open>success = True\<close>.
\<close>

definition translateWithOllama ::
  "runtime \<Rightarrow> jsstring \<Rightarrow> jsstring \<Rightarrow> jsstring \<Rightarrow> jsstring \<Rightarrow> error + translation_result" where
  "translateWithOllama ollama text sourceLang targetLang model =
     (case ollama (ollama_request_for text sourceLang targetLang model) of
        Inl message \<Rightarrow> Inl (TranslateFailed message)
      | Inr data \<Rightarrow> Inr (ollama_result model data))"

section \<open>Translation service: \<^verbatim>\<open>POST /api/translate\<close>\<close>

text \<open>
  The cache maps a key to the stored result; \<^verbatim>\<open>cache.get\<close> of a key that is absent or
  expired is \<^verbatim>\<open>undefined\<close>.  Every stored value is an object, hence truthy.
\<close>

type_synonym cache = "jsstring \<rightharpoonup> translation_result"

text \<open>The JSON body of a request; a field is \<open>None\<close> when the body does not have it.\<close>

record request_body =
  body_source_lang :: "jsstring option"
  body_target_lang :: "jsstring option"
  body_model :: "jsstring option"

record translate_body = request_body +
  body_text :: "jsstring option"

text \<open>The defaults of the destructuring \<^verbatim>\<open>const { \<dots> } = req.body\<close>.\<close>

definition source_lang_of :: "'a request_body_scheme \<Rightarrow> jsstring" where
  "source_lang_of req = (case body_source_lang req of None \<Rightarrow> js ''auto'' | Some l \<Rightarrow> l)"

definition target_lang_of :: "'a request_body_scheme \<Rightarrow> jsstring" where
  "target_lang_of req = (case body_target_lang req of None \<Rightarrow> js ''zh-tw'' | Some l \<Rightarrow> l)"

definition model_of :: "'a request_body_scheme \<Rightarrow> jsstring" where
  "model_of req = (case body_model req of None \<Rightarrow> js ''qwen2:7b-instruct'' | Some m \<Rightarrow> m)"

text \<open>
  A batch result: \<^verbatim>\<open>{ index, ...result }\<close> for a cached or fresh result, or the object
  of the \<^verbatim>\<open>catch\<close> branch with the error message and the original text as
  \<^verbatim>\<open>translation\<close>.
\<close>

datatype batch_item =
  ItemResult nat translation_result
| ItemFailure nat error jsstring

fun item_index :: "batch_item \<Rightarrow> nat" where
  "item_index (ItemResult i r) = i"
| "item_index (ItemFailure i e t) = i"

fun item_success :: "batch_item \<Rightarrow> bool" where
  "item_success (ItemResult i r) = success r"
| "item_success (ItemFailure i e t) = False"

fun item_translation :: "batch_item \<Rightarrow> jsstring" where
  "item_translation (ItemResult i r) = translation r"
| "item_translation (ItemFailure i e t) = t"

text \<open>
  Response bodies: \<^verbatim>\<open>{ success: false, error }\<close>, the result with its \<^verbatim>\<open>from_cache\<close>
  tag, and the batch response with \<^verbatim>\<open>results\<close> and \<^verbatim>\<open>total_texts\<close> (its
  \<^verbatim>\<open>processing_time\<close> is wall-clock time and is left out).
\<close>

datatype response_body =
  Failure error
| Translated translation_result bool
| Batch "batch_item list" nat

record http_response =
  status :: nat
  body :: response_body

text \<open>
  The handler returns its response, the cache afterwards and the requests it has sent to
  the runtime.
\<close>

definition translate_handler ::
  "runtime \<Rightarrow> cache \<Rightarrow> translate_body \<Rightarrow> http_response \<times> cache \<times> ollama_request list" where
  "translate_handler ollama cache req =
     (let source_lang = source_lang_of req;
          target_lang = target_lang_of req;
          model = model_of req
      in
      case body_text req of
        None \<Rightarrow> (\<lparr>status = 400, body = Failure EmptyText\<rparr>, cache, [])
      | Some text \<Rightarrow>
          if text = [] \<or> length (trim text) = 0 then
            (\<lparr>status = 400, body = Failure EmptyText\<rparr>, cache, [])
          else if length text > 10000 then
            (\<lparr>status = 400, body = Failure TextTooLong\<rparr>, cache, [])
          else
            let key = cacheKey model source_lang target_lang text in
            (case cache key of
               Some cached \<Rightarrow> (\<lparr>status = 200, body = Translated cached True\<rparr>, cache, [])
             | None \<Rightarrow>
                 (case translateWithOllama ollama text source_lang target_lang model of
                    Inl e \<Rightarrow>
                      (\<lparr>status = 500, body = Failure e\<rparr>, cache,
                       [ollama_request_for text source_lang target_lang model])
                  | Inr result \<Rightarrow>
                      (\<lparr>status = 200, body = Translated result False\<rparr>,
                       cache(key \<mapsto> result),
                       [ollama_request_for text source_lang target_lang model]))))"


section \<open>Translation service: \<^verbatim>\<open>POST /api/translate/batch\<close>\<close>

record batch_body = request_body +
  body_texts :: "jsstring list option"

text \<open>
  The asynchronous callback of \<^verbatim>\<open>batch.map\<close> for one text, against the cache it reads:
  the object it resolves to, the \<^verbatim>\<open>cache.set\<close> it performs once the runtime has
  answered, and the requests it sends.
\<close>

definition translate_item ::
  "runtime \<Rightarrow> cache \<Rightarrow> jsstring \<Rightarrow> jsstring \<Rightarrow> jsstring \<Rightarrow> nat \<Rightarrow> jsstring \<Rightarrow>
   batch_item \<times> (jsstring \<times> translation_result) option \<times> ollama_request list" where
  "translate_item ollama cache sourceLang targetLang model idx text =
     (let key = cacheKey model sourceLang targetLang text in
      case cache key of
        Some cached \<Rightarrow> (ItemResult idx cached, None, [])
      | None \<Rightarrow>
          (case translateWithOllama ollama text sourceLang targetLang model of
             Inr result \<Rightarrow>
               (ItemResult idx result, Some (key, result),
                [ollama_request_for text sourceLang targetLang model])
           | Inl e \<Rightarrow>
               (ItemFailure idx e text, None,
                [ollama_request_for text sourceLang targetLang model])))"

text \<open>
  One group of at most five texts, starting at index \<open>i\<close>.  \<^verbatim>\<open>batch.map\<close> runs every
  callback up to its first \<^verbatim>\<open>await\<close> before any reply is handled, so all of them read
  the cache as it is when the group starts.  The replies then arrive in some order, here
  by the completion time \<open>latency\<close> gives to each index, and each successful one stores
  its result.  \<^verbatim>\<open>Promise.allSettled\<close> returns the values in the order of the
  callbacks.
\<close>

definition store_result ::
  "nat \<times> batch_item \<times> (jsstring \<times> translation_result) option \<times> ollama_request list \<Rightarrow>
   cache \<Rightarrow> cache" where
  "store_result completed cache =
     (case fst (snd (snd completed)) of
        None \<Rightarrow> cache
      | Some (key, result) \<Rightarrow> cache(key \<mapsto> result))"

definition run_batch ::
  "runtime \<Rightarrow> (nat \<Rightarrow> nat) \<Rightarrow> cache \<Rightarrow> jsstring \<Rightarrow> jsstring \<Rightarrow> jsstring \<Rightarrow> nat \<Rightarrow>
   jsstring list \<Rightarrow> batch_item list \<times> cache \<times> ollama_request list" where
  "run_batch ollama latency cache sourceLang targetLang model i batch =
     (let outcomes =
            map (\<lambda>(index, text).
                   translate_item ollama cache sourceLang targetLang model (i + index) text)
              (enumerate 0 batch);
          completions = sort_key (\<lambda>(index, outcome). latency (i + index)) (enumerate 0 outcomes)
      in (map fst outcomes,
          fold store_result completions cache,
          concat (map (\<lambda>outcome. snd (snd outcome)) outcomes)))"

function batch_loop ::
  "runtime \<Rightarrow> (nat \<Rightarrow> nat) \<Rightarrow> jsstring \<Rightarrow> jsstring \<Rightarrow> jsstring \<Rightarrow> jsstring list \<Rightarrow> nat \<Rightarrow>
   batch_item list \<Rightarrow> cache \<Rightarrow> ollama_request list \<Rightarrow>
   batch_item list \<times> cache \<times> ollama_request list" where
  "batch_loop ollama latency sourceLang targetLang model texts i results cache requests =
     (if i < length texts then
        (case run_batch ollama latency cache sourceLang targetLang model i
                (take 5 (drop i texts)) of
           (batchResults, cache', requests') \<Rightarrow>
             batch_loop ollama latency sourceLang targetLang model texts (i + 5)
               (results @ batchResults) cache' (requests @ requests'))
      else (results, cache, requests))"
  by pat_completeness auto
termination
  by (relation "measure (\<lambda>(ollama, latency, sourceLang, targetLang, model, texts, i, rest).
                           length texts - i)") auto

declare batch_loop.simps [simp del]

text \<open>\<^verbatim>\<open>results.sort((a, b) => a.index - b.index)\<close> is a stable sort by index.\<close>

definition batchTranslate ::
  "runtime \<Rightarrow> (nat \<Rightarrow> nat) \<Rightarrow> cache \<Rightarrow> jsstring list \<Rightarrow> jsstring \<Rightarrow> jsstring \<Rightarrow> jsstring \<Rightarrow>
   batch_item list \<times> cache \<times> ollama_request list" where
  "batchTranslate ollama latency cache texts sourceLang targetLang model =
     (case batch_loop ollama latency sourceLang targetLang model texts 0 [] cache [] of
        (results, cache', requests) \<Rightarrow> (sort_key item_index results, cache', requests))"

definition batch_handler ::
  "runtime \<Rightarrow> (nat \<Rightarrow> nat) \<Rightarrow> cache \<Rightarrow> batch_body \<Rightarrow>
   http_response \<times> cache \<times> ollama_request list" where
  "batch_handler ollama latency cache req =
     (let source_lang = source_lang_of req;
          target_lang = target_lang_of req;
          model = model_of req
      in
      case body_texts req of
        None \<Rightarrow> (\<lparr>status = 400, body = Failure EmptyTexts\<rparr>, cache, [])
      | Some texts \<Rightarrow>
          if length texts = 0 then
            (\<lparr>status = 400, body = Failure EmptyTexts\<rparr>, cache, [])
          else if length texts > 50 then
            (\<lparr>status = 400, body = Failure TooManyTexts\<rparr>, cache, [])
          else
            (case batchTranslate ollama latency cache texts source_lang target_lang model of
               (results, cache', requests) \<Rightarrow>
                 (\<lparr>status = 200, body = Batch results (length texts)\<rparr>, cache', requests)))"

section \<open>Browser extension: \<^verbatim>\<open>LocalAITranslator.translateWebPage\<close>\<close>

text \<open>
  The client's \<^verbatim>\<open>batchTranslate\<close>.  Its HTTP exchange with the service is the parameter
  \<open>post\<close>: the \<^verbatim>\<open>results\<close> and \<^verbatim>\<open>total_texts\<close> of a successful response, or the
  message of the error thrown for anything else.
\<close>

datatype client_error = NoTexts | OverFiftyTexts | RequestFailed jsstring

datatype client_batch =
  BatchSuccess "batch_item list" nat
| BatchFailure client_error

definition LocalAITranslator_batchTranslate ::
  "(jsstring list \<Rightarrow> jsstring + batch_item list \<times> nat) \<Rightarrow> jsstring list \<Rightarrow> client_batch" where
  "LocalAITranslator_batchTranslate post texts =
     (if length texts = 0 then BatchFailure NoTexts
      else if length texts > 50 then BatchFailure OverFiftyTexts
      else
        (case post texts of
           Inl message \<Rightarrow> BatchFailure (RequestFailed message)
         | Inr (results, total_texts) \<Rightarrow> BatchSuccess results total_texts))"

text \<open>
  The page is the list of the text nodes that \<^verbatim>\<open>extractTextNodes\<close> returns, in document
  order, each with its \<^verbatim>\<open>textContent\<close>.  \<^verbatim>\<open>createBilingualDisplay\<close> puts in the place
  of a text node a container with the original and the translation (every extracted node
  has a parent element).
\<close>

datatype dom_node =
  TextNode jsstring
| BilingualContainer jsstring jsstring

text \<open>
  The \<^verbatim>\<open>textNodes.forEach\<close> loop with its counter \<open>appliedCount\<close>;
  \<^verbatim>\<open>results[appliedCount]\<close> is \<^verbatim>\<open>undefined\<close> beyond the end of the array.
\<close>

fun apply_results :: "batch_item list \<Rightarrow> jsstring list \<Rightarrow> nat \<Rightarrow> dom_node list \<times> nat" where
  "apply_results results [] appliedCount = ([], appliedCount)"
| "apply_results results (node # nodes) appliedCount =
     (let original = trim node in
      if length original > 0 \<and> shouldTranslate original then
        if appliedCount < length results \<and> item_success (results ! appliedCount) then
          (case apply_results results nodes (appliedCount + 1) of
             (page, n) \<Rightarrow>
               (BilingualContainer original (item_translation (results ! appliedCount)) # page,
                n))
        else
          (case apply_results results nodes appliedCount of
             (page, n) \<Rightarrow> (TextNode node # page, n))
      else
        (case apply_results results nodes appliedCount of
           (page, n) \<Rightarrow> (TextNode node # page, n)))"

datatype page_result =
  NothingToTranslate
| PageFailure client_error
| PageTranslated nat nat

definition translateWebPage ::
  "(jsstring list \<Rightarrow> jsstring + batch_item list \<times> nat) \<Rightarrow> jsstring list \<Rightarrow>
   page_result \<times> dom_node list" where
  "translateWebPage post textNodes =
     (let textsToTranslate =
            filter (\<lambda>text. length text > 0 \<and> shouldTranslate text) (map trim textNodes)
      in
      if length textsToTranslate = 0 then (NothingToTranslate, map TextNode textNodes)
      else
        (case LocalAITranslator_batchTranslate post textsToTranslate of
           BatchFailure e \<Rightarrow> (PageFailure e, map TextNode textNodes)
         | BatchSuccess results total_texts \<Rightarrow>
             (case apply_results results textNodes 0 of
                (page, appliedCount) \<Rightarrow>
                  (PageTranslated appliedCount (length textsToTranslate), page))))"

section \<open>Example data\<close>

text \<open>
  Concrete texts, requests, replies and runtimes for the examples below.  The reply of an
  example runtime carries fixed timing figures.
\<close>

definition example_data :: "jsstring \<Rightarrow> ollama_data" where
  "example_data reply =
     \<lparr>total_duration = 1200, load_duration = 300, prompt_eval_count = 40, eval_count = 12,
      response = reply\<rparr>"

definition example_result :: "jsstring \<Rightarrow> jsstring \<Rightarrow> translation_result" where
  "example_result model reply =
     \<lparr>success = True, translation = reply, result_model = model,
      stats = \<lparr>total_duration = 1200, load_duration = 300, prompt_eval_count = 40,
               eval_count = 12\<rparr>\<rparr>"

definition unreachable_runtime :: runtime where
  "unreachable_runtime request = Inl (js ''timeout of 30000ms exceeded'')"

definition replying_runtime :: "jsstring \<Rightarrow> runtime" where
  "replying_runtime reply request = Inr (example_data reply)"

definition failing_on :: "jsstring \<Rightarrow> runtime" where
  "failing_on bad request =
     (case request_prompt request of
        Prompt template text \<Rightarrow>
          if text = bad then Inl (js ''timeout of 30000ms exceeded'')
          else Inr (example_data (text @ js ''-zh''))
      | InheritedMember member \<Rightarrow> Inl (js ''Request failed with status code 400''))"

definition translate_request :: "jsstring \<Rightarrow> translate_body" where
  "translate_request text =
     \<lparr>body_source_lang = None, body_target_lang = None, body_model = None,
      body_text = Some text\<rparr>"

definition batch_request :: "jsstring list \<Rightarrow> batch_body" where
  "batch_request texts =
     \<lparr>body_source_lang = None, body_target_lang = None, body_model = None,
      body_texts = Some texts\<rparr>"

definition ni_hao :: jsstring where
  "ni_hao = [0x4F60, 0x597D]"

definition zao_an :: jsstring where
  "zao_an = [0x65E9, 0x5B89]"

definition yi_wen_simplified :: jsstring where
  "yi_wen_simplified = [0x8BD1, 0x6587, 0xFF1A, 0x4F60, 0x597D]"

definition dog_translation :: jsstring where
  "dog_translation = [0x61D2, 0x72D7]"

definition hello_request :: translate_body where
  "hello_request =
     \<lparr>body_source_lang = Some (js ''auto''), body_target_lang = Some (js ''zh-tw''),
      body_model = Some (js ''M''), body_text = Some (js ''Hello'')\<rparr>"

definition hello_key :: jsstring where
  "hello_key = cacheKey (js ''M'') (js ''auto'') (js ''zh-tw'') (js ''Hello'')"

definition bonjour_request :: translate_body where
  "bonjour_request =
     \<lparr>body_source_lang = Some (js ''fr''), body_target_lang = Some (js ''en''),
      body_model = Some (js ''M''), body_text = Some (js ''Bonjour'')\<rparr>"

definition fox_dog :: jsstring where
  "fox_dog = js ''The quick brown fox jumps over the lazy dog''"

definition fox_cat :: jsstring where
  "fox_cat = js ''The quick brown fox jumps over the lazy cat''"

definition fox_request :: translate_body where
  "fox_request =
     \<lparr>body_source_lang = Some (js ''en''), body_target_lang = Some (js ''zh-tw''),
      body_model = Some (js ''M''), body_text = Some fox_dog\<rparr>"

definition abc_model :: jsstring where
  "abc_model = js ''qwen2:7b-instruct''"

definition abc_results :: "batch_item list" where
  "abc_results =
     [ItemResult 0 (example_result abc_model (js ''a-zh'')),
      ItemFailure 1 (TranslateFailed (js ''timeout of 30000ms exceeded'')) (js ''b''),
      ItemResult 2 (example_result abc_model (js ''c-zh''))]"

definition first_fails_post :: "jsstring list \<Rightarrow> jsstring + batch_item list \<times> nat" where
  "first_fails_post texts =
     Inr ([ItemFailure 0 (TranslateFailed (js ''timeout of 30000ms exceeded'')) (js ''Hello world''),
           ItemResult 1 (example_result (js ''qwen2:7b-instruct'') zao_an)], 2)"

definition blank_batch :: batch_body where
  "blank_batch =
     \<lparr>body_source_lang = Some (js ''auto''), body_target_lang = Some (js ''zh-tw''),
      body_model = Some (js ''M''), body_texts = Some [[]]\<rparr>"

definition blank_request :: translate_body where
  "blank_request =
     \<lparr>body_source_lang = Some (js ''auto''), body_target_lang = Some (js ''zh-tw''),
      body_model = Some (js ''M''), body_text = Some []\<rparr>"

definition blank_key :: jsstring where
  "blank_key = cacheKey (js ''M'') (js ''auto'') (js ''zh-tw'') []"

section \<open>Properties of \<^verbatim>\<open>splitText\<close>\<close>

lemma match_separator_append:
  "match_separator s = Some (m, r) \<Longrightarrow> m @ r = s"
  by (auto simp: match_separator_def Let_def split: list.splits if_splits)

lemma concat_split_from: "concat (split_from acc s) = acc @ s"
proof (induction acc s rule: split_from.induct)
  case (1 acc s)
  show ?case
  proof (cases s)
    case Nil
    then show ?thesis by (simp add: split_from.simps)
  next
    case (Cons c cs)
    show ?thesis
    proof (cases "match_separator s")
      case None
      with Cons "1.IH"(1) [OF Cons None] show ?thesis
        by (subst split_from.simps) simp
    next
      case (Some mr)
      obtain m r where mr: "mr = (m, r)" by (cases mr)
      from Some mr have ms: "match_separator s = Some (m, r)" by simp
      have "concat (split_from [] r) = r"
        using "1.IH"(2) [OF Cons ms refl] by simp
      with Cons ms match_separator_append [OF ms] show ?thesis
        by (subst split_from.simps) simp
    qed
  qed
qed

text \<open>The loop loses no text: what it has emitted and holds is what it was given.\<close>

lemma splitText_loop_concat:
  "splitText_loop n ss segs cur = (segs', cur') \<Longrightarrow>
   concat segs' @ cur' = concat segs @ cur @ concat ss"
  by (induction ss arbitrary: segs cur) (auto split: if_splits)

lemma concat_splitText: "concat (splitText text maxLength) = text"
proof (cases "length text \<le> maxLength")
  case True
  then show ?thesis by (simp add: splitText_def)
next
  case False
  obtain segs cur where l: "splitText_loop maxLength (split_sentences text) [] [] = (segs, cur)"
    by (cases "splitText_loop maxLength (split_sentences text) [] []")
  from splitText_loop_concat [OF l] have "concat segs @ cur = text"
    by (simp add: split_sentences_def concat_split_from)
  with False l show ?thesis by (auto simp: splitText_def)
qed

text \<open>With \<open>maxLength \<ge> 1\<close> the loop never emits an empty segment.\<close>

lemma splitText_loop_nonempty:
  "splitText_loop n ss segs cur = (segs', cur') \<Longrightarrow> 1 \<le> n \<Longrightarrow> [] \<notin> set segs \<Longrightarrow>
   [] \<notin> set segs'"
proof (induction ss arbitrary: segs cur)
  case Nil
  then show ?case by simp
next
  case (Cons s ss)
  show ?case
  proof (cases "length cur + length s \<le> n")
    case True
    with Cons.prems have "splitText_loop n ss segs (cur @ s) = (segs', cur')" by simp
    from Cons.IH [OF this Cons.prems(2,3)] show ?thesis .
  next
    case False
    show ?thesis
    proof (cases "cur = []")
      case True
      with False Cons.prems(2) have "take n s \<noteq> []" by auto
      with True False Cons.prems have
        "splitText_loop n ss (segs @ [take n s]) (drop n s) = (segs', cur')"
        and "[] \<notin> set (segs @ [take n s])" by auto
      from Cons.IH [OF this(1) Cons.prems(2) this(2)] show ?thesis .
    next
      case nonempty: False
      with False Cons.prems have
        "splitText_loop n ss (segs @ [cur]) s = (segs', cur')"
        and "[] \<notin> set (segs @ [cur])" by auto
      from Cons.IH [OF this(1) Cons.prems(2) this(2)] show ?thesis .
    qed
  qed
qed

lemmas splitText_eval =
  splitText_def split_sentences_def split_from.simps js_def match_separator_def
  is_terminator_def is_space_def

text \<open>
  Claim C1 says that every segment of \<open>splitText text maxLength\<close> has length at most
  \<open>maxLength\<close>, and that a sentence longer than \<open>maxLength\<close> is cut into pieces of at most
  that length.  The code cuts only once: a sentence without terminator of five characters
  with \<open>maxLength = 2\<close> gives the pieces of length 2 and 3, and an overlong sentence that
  follows a nonempty current segment is not cut at all.
\<close>

theorem splitText_segment_too_long:
  "splitText (js ''aaaaa'') 2 = [js ''aa'', js ''aaa''] \<and>
   splitText (js ''Hi. aaaaaaa'') 4 = [js ''Hi. '', js ''aaaaaaa''] \<and>
   \<not> length (js ''aaa'') \<le> 2 \<and> \<not> length (js ''aaaaaaa'') \<le> 4"
  by (simp add: splitText_eval)

text \<open>
  Claim C2: for every text and every \<open>maxLength\<close> (so for every \<open>maxLength \<ge> 1\<close>), the
  segments of \<open>splitText text maxLength\<close>, concatenated in order, are the text; and a text
  of length at most \<open>maxLength\<close> is returned as the single segment that is the text.
\<close>

theorem splitText_concat:
  "concat (splitText text maxLength) = text \<and>
   (length text \<le> maxLength \<longrightarrow> splitText text maxLength = [text])"
  by (simp add: concat_splitText) (simp add: splitText_def)

theorem splitText_concat_witness:
  "length (js ''Hi. Yo'') \<le> (6::nat) \<and> splitText (js ''Hi. Yo'') 6 = [js ''Hi. Yo''] \<and>
   splitText (js ''Hi. Yo'') 4 = [js ''Hi. '', js ''Yo''] \<and>
   concat (splitText (js ''Hi. Yo'') 4) = js ''Hi. Yo''"
  using splitText_concat [of "js ''Hi. Yo''" 6] splitText_concat [of "js ''Hi. Yo''" 4]
  by (simp add: splitText_eval)

text \<open>
  Claim C10: for every nonempty text and every \<open>maxLength \<ge> 1\<close>, \<open>splitText\<close> returns a
  nonempty list and no segment of it is the empty string, although the split at sentence
  boundaries produces empty fragments (as for \<^verbatim>\<open>"Hi. . a"\<close> in the witness).
\<close>

theorem splitText_segments_nonempty:
  assumes "text \<noteq> []" and "1 \<le> maxLength"
  shows "splitText text maxLength \<noteq> [] \<and> [] \<notin> set (splitText text maxLength)"
proof -
  from assms(1) concat_splitText [of "text" maxLength]
  have ne: "splitText text maxLength \<noteq> []" by auto
  have "[] \<notin> set (splitText text maxLength)"
  proof (cases "length text \<le> maxLength")
    case True
    with assms(1) show ?thesis by (simp add: splitText_def)
  next
    case False
    obtain segs cur where l: "splitText_loop maxLength (split_sentences text) [] [] = (segs, cur)"
      by (cases "splitText_loop maxLength (split_sentences text) [] []")
    from splitText_loop_nonempty [OF l assms(2)] have "[] \<notin> set segs" by simp
    with False l show ?thesis by (auto simp: splitText_def)
  qed
  with ne show ?thesis by simp
qed

theorem splitText_segments_nonempty_witness:
  "js ''Hi. . a'' \<noteq> [] \<and> (1::nat) \<le> 3 \<and>
   split_sentences (js ''Hi. . a'') = [js ''Hi'', js ''. '', [], js ''. '', js ''a''] \<and>
   splitText (js ''Hi. . a'') 3 = [js ''Hi'', js ''. '', js ''. a''] \<and>
   splitText (js ''Hi. . a'') 3 \<noteq> [] \<and> [] \<notin> set (splitText (js ''Hi. . a'') 3)"
  using splitText_segments_nonempty [of "js ''Hi. . a''" 3]
  by (simp add: splitText_eval)

section \<open>Properties of \<^verbatim>\<open>shouldTranslate\<close>\<close>

lemmas shouldTranslate_eval =
  shouldTranslate_def only_digits_spaces_symbols_def chineseRatio_def js_def
  is_digit_def is_space_def is_word_def is_chinese_def

text \<open>
  Claim C9: \<open>shouldTranslate\<close> is false for \<^verbatim>\<open>"123"\<close>, \<^verbatim>\<open>"   "\<close> and \<^verbatim>\<open>"!!??"\<close>, for every
  text of fewer than 3 characters, for every text made only of digits, white space and
  non-word symbols, and for every text whose ratio of CJK characters to its length is
  above 0.8; it is true for \<^verbatim>\<open>"Hello world"\<close>.  The ratio is the exact quotient: the
  test \<^verbatim>\<open>chineseRatio > 0.8\<close> on doubles agrees with it for every text of fewer than
  \<open>2\<^sup>5\<^sup>0\<close> code units, since there a quotient above \<open>4/5\<close> exceeds it by at least
  \<open>1 / (5 * length)\<close>, far more than the rounding error.
\<close>

theorem shouldTranslate_filter:
  "\<not> shouldTranslate (js ''123'') \<and> \<not> shouldTranslate (js ''   '') \<and>
   \<not> shouldTranslate (js ''!!??'') \<and> shouldTranslate (js ''Hello world'') \<and>
   (length t < 3 \<longrightarrow> \<not> shouldTranslate t) \<and>
   (list_all (\<lambda>c. is_digit c \<or> is_space c \<or> \<not> is_word c) u \<longrightarrow> \<not> shouldTranslate u) \<and>
   (chineseRatio v > 8 / 10 \<longrightarrow> \<not> shouldTranslate v)"
proof -
  have ex: "\<not> shouldTranslate (js ''123'') \<and> \<not> shouldTranslate (js ''   '') \<and>
    \<not> shouldTranslate (js ''!!??'') \<and> shouldTranslate (js ''Hello world'')"
    by (simp add: shouldTranslate_eval)
  have short: "length t < 3 \<longrightarrow> \<not> shouldTranslate t"
    by (simp add: shouldTranslate_def)
  have sym: "list_all (\<lambda>c. is_digit c \<or> is_space c \<or> \<not> is_word c) u \<longrightarrow> \<not> shouldTranslate u"
    by (cases u) (simp_all add: shouldTranslate_def only_digits_spaces_symbols_def)
  have ratio: "chineseRatio v > 8 / 10 \<longrightarrow> \<not> shouldTranslate v"
    by (simp add: shouldTranslate_def)
  from ex short sym ratio show ?thesis by blast
qed

theorem shouldTranslate_filter_witness:
  "length (js ''ab'') < 3 \<and> \<not> shouldTranslate (js ''ab'') \<and>
   list_all (\<lambda>c. is_digit c \<or> is_space c \<or> \<not> is_word c) (js ''1 2!'') \<and>
   \<not> shouldTranslate (js ''1 2!'') \<and>
   chineseRatio [0x4E2D, 0x6587, 0x7FFB, 0x8B6F, 0x597D, 0x61] = 5 / 6 \<and>
   \<not> only_digits_spaces_symbols [0x4E2D, 0x6587, 0x7FFB, 0x8B6F, 0x597D, 0x61] \<and>
   \<not> shouldTranslate [0x4E2D, 0x6587, 0x7FFB, 0x8B6F, 0x597D, 0x61]"
  using shouldTranslate_filter
    [of "js ''ab''" "js ''1 2!''" "[0x4E2D, 0x6587, 0x7FFB, 0x8B6F, 0x597D, 0x61]"]
  by (simp add: shouldTranslate_eval)

section \<open>Properties of \<^verbatim>\<open>POST /api/translate\<close>\<close>

lemma trim_Nil: "trim [] = []"
  by (simp add: trim_def)

lemma trim_nonspace: "\<not> is_space c \<Longrightarrow> trim (c # s) \<noteq> []"
  by (simp add: trim_def dropWhile_append)

lemma trim_dropWhile: "trim (dropWhile is_space s) = trim s"
  by (simp add: trim_def)

lemma translate_handler_empty:
  "body_text req = Some t \<Longrightarrow> trim t = [] \<Longrightarrow>
   translate_handler ollama cache req = (\<lparr>status = 400, body = Failure EmptyText\<rparr>, cache, [])"
  by (simp add: translate_handler_def Let_def)

lemma translate_handler_too_long:
  "body_text req = Some t \<Longrightarrow> trim t \<noteq> [] \<Longrightarrow> length t > 10000 \<Longrightarrow>
   translate_handler ollama cache req = (\<lparr>status = 400, body = Failure TextTooLong\<rparr>, cache, [])"
  by (auto simp: translate_handler_def Let_def trim_Nil)

lemma translate_handler_hit:
  "body_text req = Some t \<Longrightarrow> trim t \<noteq> [] \<Longrightarrow> length t \<le> 10000 \<Longrightarrow>
   cache (cacheKey (model_of req) (source_lang_of req) (target_lang_of req) t) = Some cached \<Longrightarrow>
   translate_handler ollama cache req =
     (\<lparr>status = 200, body = Translated cached True\<rparr>, cache, [])"
  by (auto simp: translate_handler_def Let_def trim_Nil)

lemma translate_handler_miss_reply:
  "body_text req = Some t \<Longrightarrow> trim t \<noteq> [] \<Longrightarrow> length t \<le> 10000 \<Longrightarrow>
   cache (cacheKey (model_of req) (source_lang_of req) (target_lang_of req) t) = None \<Longrightarrow>
   ollama (ollama_request_for t (source_lang_of req) (target_lang_of req) (model_of req)) = Inr d \<Longrightarrow>
   translate_handler ollama cache req =
     (\<lparr>status = 200, body = Translated (ollama_result (model_of req) d) False\<rparr>,
      cache(cacheKey (model_of req) (source_lang_of req) (target_lang_of req) t \<mapsto>
         ollama_result (model_of req) d),
      [ollama_request_for t (source_lang_of req) (target_lang_of req) (model_of req)])"
  by (auto simp: translate_handler_def translateWithOllama_def Let_def trim_Nil)

lemma translate_handler_miss_failure:
  "body_text req = Some t \<Longrightarrow> trim t \<noteq> [] \<Longrightarrow> length t \<le> 10000 \<Longrightarrow>
   cache (cacheKey (model_of req) (source_lang_of req) (target_lang_of req) t) = None \<Longrightarrow>
   ollama (ollama_request_for t (source_lang_of req) (target_lang_of req) (model_of req)) = Inl message \<Longrightarrow>
   translate_handler ollama cache req =
     (\<lparr>status = 500, body = Failure (TranslateFailed message)\<rparr>, cache,
      [ollama_request_for t (source_lang_of req) (target_lang_of req) (model_of req)])"
  by (auto simp: translate_handler_def translateWithOllama_def Let_def trim_Nil)

lemma batch_handler_empty:
  "body_texts req = Some [] \<Longrightarrow>
   batch_handler ollama latency cache req = (\<lparr>status = 400, body = Failure EmptyTexts\<rparr>, cache, [])"
  by (simp add: batch_handler_def Let_def)

lemma batch_handler_too_many:
  "body_texts req = Some ts \<Longrightarrow> length ts > 50 \<Longrightarrow>
   batch_handler ollama latency cache req = (\<lparr>status = 400, body = Failure TooManyTexts\<rparr>, cache, [])"
  by (auto simp: batch_handler_def Let_def)

text \<open>
  Claim C8: Translate answers with a validation failure (status 400) for the empty text and
  for a text of more than 10,000 characters, and BatchTranslate does so for an empty array
  and for an array of more than 50 texts; in each case no request is sent to the model
  runtime and the cache is unchanged.
\<close>

theorem validation_failures:
  "(body_text req = Some t \<and> (t = [] \<or> length t > 10000) \<longrightarrow>
      translate_handler ollama cache req =
        (\<lparr>status = 400, body = Failure (if trim t = [] then EmptyText else TextTooLong)\<rparr>,
         cache, [])) \<and>
   (body_texts breq = Some ts \<and> (ts = [] \<or> length ts > 50) \<longrightarrow>
      batch_handler ollama latency cache breq =
        (\<lparr>status = 400, body = Failure (if ts = [] then EmptyTexts else TooManyTexts)\<rparr>,
         cache, []))"
proof -
  have single: "translate_handler ollama cache req =
        (\<lparr>status = 400, body = Failure (if trim t = [] then EmptyText else TextTooLong)\<rparr>,
         cache, [])" if "body_text req = Some t" and "t = [] \<or> length t > 10000"
  proof (cases "trim t = []")
    case True
    with that(1) show ?thesis by (simp add: translate_handler_empty)
  next
    case False
    then have "t \<noteq> []" by (auto simp: trim_Nil)
    with that False show ?thesis by (simp add: translate_handler_too_long)
  qed
  have batch: "batch_handler ollama latency cache breq =
        (\<lparr>status = 400, body = Failure (if ts = [] then EmptyTexts else TooManyTexts)\<rparr>,
         cache, [])" if "body_texts breq = Some ts" and "ts = [] \<or> length ts > 50"
  proof (cases "ts = []")
    case True
    with that(1) show ?thesis by (simp add: batch_handler_empty)
  next
    case False
    with that show ?thesis by (simp add: batch_handler_too_many)
  qed
  from single batch show ?thesis by blast
qed

lemma is_space_a: "\<not> is_space 0x61"
  by (simp add: is_space_def)

theorem validation_failures_witness:
  "translate_handler unreachable_runtime Map.empty (translate_request []) =
     (\<lparr>status = 400, body = Failure EmptyText\<rparr>, Map.empty, []) \<and>
   length (0x61 # replicate 10000 (0x61 :: jschar)) = 10001 \<and>
   translate_handler unreachable_runtime Map.empty
       (translate_request (0x61 # replicate 10000 0x61)) =
     (\<lparr>status = 400, body = Failure TextTooLong\<rparr>, Map.empty, []) \<and>
   batch_handler unreachable_runtime (\<lambda>i. i) Map.empty (batch_request []) =
     (\<lparr>status = 400, body = Failure EmptyTexts\<rparr>, Map.empty, []) \<and>
   length (replicate 51 (js ''a'')) = 51 \<and>
   batch_handler unreachable_runtime (\<lambda>i. i) Map.empty (batch_request (replicate 51 (js ''a''))) =
     (\<lparr>status = 400, body = Failure TooManyTexts\<rparr>, Map.empty, [])"
  using
    validation_failures [where req = "translate_request []" and t = "[]"
      and breq = "batch_request []" and ts = "[]" and ollama = unreachable_runtime
      and cache = Map.empty and latency = "\<lambda>i. i"]
    validation_failures [where req = "translate_request (0x61 # replicate 10000 0x61)"
      and t = "0x61 # replicate 10000 0x61" and breq = "batch_request (replicate 51 (js ''a''))"
      and ts = "replicate 51 (js ''a'')" and ollama = unreachable_runtime
      and cache = Map.empty and latency = "\<lambda>i. i"]
  by (simp add: translate_request_def batch_request_def trim_Nil trim_nonspace is_space_a)


text \<open>
  Claim C4 as stated fails in two places.  Where the key is absent and the runtime fails,
  the runtime is invoked, but nothing is stored and the response is a failure without a
  cache tag.  And a key that is present does not help a request that is not valid: the
  batch operation, which does not validate its texts, stores a result for the empty text,
  and a Translate of the empty text is still rejected instead of answered from the cache.
\<close>

theorem translate_cache_claim_fails:
  "Map.empty hello_key = (None :: translation_result option) \<and>
   translate_handler unreachable_runtime Map.empty hello_request =
     (\<lparr>status = 500, body = Failure (TranslateFailed (js ''timeout of 30000ms exceeded''))\<rparr>,
      Map.empty,
      [ollama_request_for (js ''Hello'') (js ''auto'') (js ''zh-tw'') (js ''M'')]) \<and>
   fst (snd (batch_handler (replying_runtime ni_hao) (\<lambda>i. i) Map.empty blank_batch)) =
     [blank_key \<mapsto> example_result (js ''M'') ni_hao] \<and>
   body_text blank_request = Some [] \<and>
   [blank_key \<mapsto> example_result (js ''M'') ni_hao]
       (cacheKey (model_of blank_request) (source_lang_of blank_request)
          (target_lang_of blank_request) []) =
     Some (example_result (js ''M'') ni_hao) \<and>
   translate_handler (replying_runtime ni_hao) [blank_key \<mapsto> example_result (js ''M'') ni_hao]
       blank_request =
     (\<lparr>status = 400, body = Failure EmptyText\<rparr>,
      [blank_key \<mapsto> example_result (js ''M'') ni_hao], [])"
proof -
  have present: "body_text blank_request = Some []"
    "[blank_key \<mapsto> example_result (js ''M'') ni_hao]
       (cacheKey (model_of blank_request) (source_lang_of blank_request)
          (target_lang_of blank_request) []) =
     Some (example_result (js ''M'') ni_hao)"
    by (simp_all add: blank_request_def blank_key_def model_of_def source_lang_of_def
      target_lang_of_def)
  have miss: "translate_handler unreachable_runtime Map.empty hello_request =
     (\<lparr>status = 500, body = Failure (TranslateFailed (js ''timeout of 30000ms exceeded''))\<rparr>,
      Map.empty,
      [ollama_request_for (js ''Hello'') (js ''auto'') (js ''zh-tw'') (js ''M'')])"
    by (simp add: translate_handler_def translateWithOllama_def Let_def hello_request_def
      unreachable_runtime_def source_lang_of_def target_lang_of_def model_of_def trim_def
      js_def is_space_def)
  have clean: "ollama_result (js ''M'') (example_data ni_hao) = example_result (js ''M'') ni_hao"
    by (simp add: ollama_result_def example_data_def example_result_def ni_hao_def
      clean_translation_def replace_label_def label_result_def label_translated_text_def
      label_translation_def trim_def is_space_def)
  have stored: "fst (snd (batch_handler (replying_runtime ni_hao) (\<lambda>i. i) Map.empty blank_batch)) =
     [blank_key \<mapsto> example_result (js ''M'') ni_hao]"
    by (simp add: batch_handler_def batchTranslate_def batch_loop.simps run_batch_def
      enumerate_eq_zip Let_def store_result_def translate_item_def translateWithOllama_def
      blank_batch_def blank_key_def replying_runtime_def clean
      source_lang_of_def target_lang_of_def model_of_def)
  have blank: "translate_handler (replying_runtime ni_hao)
       [blank_key \<mapsto> example_result (js ''M'') ni_hao] blank_request =
     (\<lparr>status = 400, body = Failure EmptyText\<rparr>,
      [blank_key \<mapsto> example_result (js ''M'') ni_hao], [])"
    by (simp add: translate_handler_def Let_def blank_request_def)
  from miss stored present blank show ?thesis by simp
qed

text \<open>
  Claim C4, amended: for every valid Translate request (its text is not blank and has at
  most 10,000 characters), if the cache key made of model, source language, target language
  and text is present, the stored result is returned tagged \<^verbatim>\<open>from_cache = true\<close>, the
  runtime is not invoked and the cache is unchanged; if the key is absent, the runtime is
  invoked once, and when it replies, the cleaned result is stored under that key and
  returned tagged \<^verbatim>\<open>from_cache = false\<close>, and when it fails, a failure (status 500) is
  returned and nothing is stored.
\<close>

theorem translate_cache_hit_and_miss:
  assumes "body_text req = Some t" and "trim t \<noteq> []" and "length t \<le> 10000"
  shows
    "(cache (cacheKey (model_of req) (source_lang_of req) (target_lang_of req) t) = Some cached \<longrightarrow>
        translate_handler ollama cache req =
          (\<lparr>status = 200, body = Translated cached True\<rparr>, cache, [])) \<and>
     (cache (cacheKey (model_of req) (source_lang_of req) (target_lang_of req) t) = None \<and>
      ollama (ollama_request_for t (source_lang_of req) (target_lang_of req) (model_of req)) = Inr d \<longrightarrow>
        translate_handler ollama cache req =
          (\<lparr>status = 200, body = Translated (ollama_result (model_of req) d) False\<rparr>,
           cache(cacheKey (model_of req) (source_lang_of req) (target_lang_of req) t \<mapsto>
             ollama_result (model_of req) d),
           [ollama_request_for t (source_lang_of req) (target_lang_of req) (model_of req)])) \<and>
     (cache (cacheKey (model_of req) (source_lang_of req) (target_lang_of req) t) = None \<and>
      ollama (ollama_request_for t (source_lang_of req) (target_lang_of req) (model_of req)) = Inl message \<longrightarrow>
        translate_handler ollama cache req =
          (\<lparr>status = 500, body = Failure (TranslateFailed message)\<rparr>, cache,
           [ollama_request_for t (source_lang_of req) (target_lang_of req) (model_of req)]))"
  using assms
  by (simp add: translate_handler_hit translate_handler_miss_reply translate_handler_miss_failure)

lemma hello_request_simps:
  "body_text hello_request = Some (js ''Hello'')"
  "model_of hello_request = js ''M''"
  "source_lang_of hello_request = js ''auto''"
  "target_lang_of hello_request = js ''zh-tw''"
  by (simp_all add: hello_request_def model_of_def source_lang_of_def target_lang_of_def)

lemma trim_Hello: "trim (js ''Hello'') \<noteq> []"
  by (simp add: js_def trim_nonspace is_space_def)

theorem translate_cache_hit_and_miss_witness:
  "translate_handler unreachable_runtime [hello_key \<mapsto> example_result (js ''M'') ni_hao]
       hello_request =
     (\<lparr>status = 200, body = Translated (example_result (js ''M'') ni_hao) True\<rparr>,
      [hello_key \<mapsto> example_result (js ''M'') ni_hao], []) \<and>
   translate_handler (replying_runtime ni_hao) Map.empty hello_request =
     (\<lparr>status = 200, body = Translated (example_result (js ''M'') ni_hao) False\<rparr>,
      [hello_key \<mapsto> example_result (js ''M'') ni_hao],
      [ollama_request_for (js ''Hello'') (js ''auto'') (js ''zh-tw'') (js ''M'')]) \<and>
   translate_handler unreachable_runtime Map.empty hello_request =
     (\<lparr>status = 500, body = Failure (TranslateFailed (js ''timeout of 30000ms exceeded''))\<rparr>,
      Map.empty,
      [ollama_request_for (js ''Hello'') (js ''auto'') (js ''zh-tw'') (js ''M'')])"
proof -
  have len: "length (js ''Hello'') \<le> 10000" by (simp add: js_def)
  have clean: "ollama_result (js ''M'') (example_data ni_hao) = example_result (js ''M'') ni_hao"
    by (simp add: ollama_result_def example_data_def example_result_def ni_hao_def
      clean_translation_def replace_label_def label_result_def label_translated_text_def
      label_translation_def trim_def is_space_def)
  note th = translate_cache_hit_and_miss [OF hello_request_simps(1) trim_Hello len]
  from th [where cache = "[hello_key \<mapsto> example_result (js ''M'') ni_hao]"
      and cached = "example_result (js ''M'') ni_hao" and ollama = unreachable_runtime]
    th [where cache = Map.empty and ollama = "replying_runtime ni_hao"
      and d = "example_data ni_hao"]
    th [where cache = Map.empty and ollama = unreachable_runtime
      and message = "js ''timeout of 30000ms exceeded''"]
  show ?thesis
    by (simp add: hello_request_simps hello_key_def clean replying_runtime_def
      unreachable_runtime_def)
qed

section \<open>Cleaning of the model output\<close>

lemma replace_label_match:
  "c = 0xFF1A \<or> c = 0x3A \<Longrightarrow> replace_label label (label @ c # rest) = dropWhile is_space rest"
  by (auto simp: replace_label_def)

lemma replace_label_result_other:
  "replace_label label_result (label_translated_text @ c # rest) =
     label_translated_text @ c # rest"
  "replace_label label_result (label_translation @ c # rest) = label_translation @ c # rest"
  if "c = 0xFF1A \<or> c = 0x3A"
  using that
  by (auto simp add: replace_label_def label_result_def label_translated_text_def
      label_translation_def split: list.split)

lemma replace_label_translated_text_other:
  "replace_label label_translated_text (label_translation @ c # rest) =
     label_translation @ c # rest"
  by (auto simp: replace_label_def label_translated_text_def label_translation_def)

lemma clean_translation_labels:
  assumes "colon = 0xFF1A \<or> colon = 0x3A"
  shows "clean_translation (label_result @ colon # rest) =
           trim (replace_label label_translation
             (replace_label label_translated_text (dropWhile is_space rest)))"
    and "clean_translation (label_translated_text @ colon # rest) =
           trim (replace_label label_translation (dropWhile is_space rest))"
    and "clean_translation (label_translation @ colon # rest) = trim rest"
  using assms
  by (simp_all add: clean_translation_def replace_label_match replace_label_result_other
      replace_label_translated_text_other trim_dropWhile)

lemma replace_label_nomatch:
  assumes "\<forall>c rest. (c = 0xFF1A \<or> c = 0x3A) \<longrightarrow> s \<noteq> label @ c # rest"
  shows "replace_label label s = s"
proof (cases "drop (length label) s")
  case Nil
  then show ?thesis by (simp add: replace_label_def)
next
  case (Cons c rest)
  have "\<not> (take (length label) s = label \<and> (c = 0xFF1A \<or> c = 0x3A))"
  proof
    assume a: "take (length label) s = label \<and> (c = 0xFF1A \<or> c = 0x3A)"
    have "s = take (length label) s @ drop (length label) s" by simp
    with a Cons have "s = label @ c # rest" by simp
    with a assms show False by blast
  qed
  with Cons show ?thesis by (auto simp: replace_label_def)
qed

lemma clean_translation_no_label:
  assumes "\<forall>c rest. (c = 0xFF1A \<or> c = 0x3A) \<longrightarrow>
             raw \<noteq> label_result @ c # rest \<and>
             raw \<noteq> label_translated_text @ c # rest \<and>
             raw \<noteq> label_translation @ c # rest"
  shows "clean_translation raw = trim raw"
proof -
  have "replace_label label_result raw = raw"
    using assms by (intro replace_label_nomatch) blast
  moreover have "replace_label label_translated_text raw = raw"
    using assms by (intro replace_label_nomatch) blast
  moreover have "replace_label label_translation raw = raw"
    using assms by (intro replace_label_nomatch) blast
  ultimately show ?thesis by (simp add: clean_translation_def)
qed

text \<open>
  Claim C7 as stated fails for the target language \<^verbatim>\<open>en\<close>: the label
  \<^verbatim>\<open>Translation result:\<close> at the head of the raw output stays in the result that is
  cached and returned.
\<close>

theorem english_label_not_stripped:
  "translate_handler (replying_runtime (js ''Translation result: Hello'')) Map.empty
       bonjour_request =
     (\<lparr>status = 200,
       body = Translated (example_result (js ''M'') (js ''Translation result: Hello'')) False\<rparr>,
      [cacheKey (js ''M'') (js ''fr'') (js ''en'') (js ''Bonjour'') \<mapsto>
         example_result (js ''M'') (js ''Translation result: Hello'')],
      [\<lparr>request_model = js ''M'', request_prompt = Prompt Template_en (js ''Bonjour'')\<rparr>])"
proof -
  have clean: "clean_translation (js ''Translation result: Hello'') =
      js ''Translation result: Hello''"
    by (simp add: clean_translation_def replace_label_def label_result_def
      label_translated_text_def label_translation_def trim_def js_def is_space_def
      split: list.split)
  have req: "ollama_request_for (js ''Bonjour'') (js ''fr'') (js ''en'') (js ''M'') =
      \<lparr>request_model = js ''M'', request_prompt = Prompt Template_en (js ''Bonjour'')\<rparr>"
    by (simp add: ollama_request_for_def getTranslationPrompt_def js_def)
  have t: "trim (js ''Bonjour'') \<noteq> []" "length (js ''Bonjour'') \<le> 10000"
    by (simp_all add: js_def trim_nonspace is_space_def)
  have r: "body_text bonjour_request = Some (js ''Bonjour'')"
    "model_of bonjour_request = js ''M''"
    "source_lang_of bonjour_request = js ''fr''"
    "target_lang_of bonjour_request = js ''en''"
    by (simp_all add: bonjour_request_def model_of_def source_lang_of_def target_lang_of_def)
  have res: "ollama_result (js ''M'') (example_data (js ''Translation result: Hello'')) =
      example_result (js ''M'') (js ''Translation result: Hello'')"
    by (simp add: ollama_result_def example_data_def example_result_def clean)
  from translate_handler_miss_reply [of bonjour_request "js ''Bonjour''" Map.empty
      "replying_runtime (js ''Translation result: Hello'')"
      "example_data (js ''Translation result: Hello'')", OF r(1) t]
  have "translate_handler (replying_runtime (js ''Translation result: Hello'')) Map.empty
       bonjour_request = 
     (\<lparr>status = 200, body = Translated (ollama_result (model_of bonjour_request) (example_data (js ''Translation result: Hello''))) False\<rparr>,
      Map.empty(cacheKey (model_of bonjour_request) (source_lang_of bonjour_request) (target_lang_of bonjour_request) (js ''Bonjour'') \<mapsto>
         ollama_result (model_of bonjour_request) (example_data (js ''Translation result: Hello''))),
      [ollama_request_for (js ''Bonjour'') (source_lang_of bonjour_request) (target_lang_of bonjour_request) (model_of bonjour_request)])"
    by (simp add: replying_runtime_def)
  then show ?thesis
    by (simp only: r req res)
qed

text \<open>
  Claim C7, amended: for every raw model output and every target language, Translate
  passes the raw output through the same cleaning before the result is cached and
  returned: a label at the very start of the output, in Traditional Chinese only
  ("translation result", "translated text" or "translation"), followed by a fullwidth
  or ASCII colon, is removed together with the white space behind it, tried once for
  each label in this order, and the outcome is trimmed.  Labels in other languages are
  not removed: an output that does not start with one of these three labels and a colon
  is only trimmed.
\<close>

theorem translation_labels_stripped:
  assumes "body_text req = Some t" and "trim t \<noteq> []" and "length t \<le> 10000"
    and "cache (cacheKey (model_of req) (source_lang_of req) (target_lang_of req) t) = None"
    and "ollama (ollama_request_for t (source_lang_of req) (target_lang_of req) (model_of req)) = Inr d"
  shows
    "translate_handler ollama cache req =
       (\<lparr>status = 200, body = Translated (ollama_result (model_of req) d) False\<rparr>,
        cache(cacheKey (model_of req) (source_lang_of req) (target_lang_of req) t \<mapsto>
          ollama_result (model_of req) d),
        [ollama_request_for t (source_lang_of req) (target_lang_of req) (model_of req)]) \<and>
     translation (ollama_result (model_of req) d) = clean_translation (response d) \<and>
     (colon = 0xFF1A \<or> colon = 0x3A \<longrightarrow>
        clean_translation (label_result @ colon # rest) =
          trim (replace_label label_translation
            (replace_label label_translated_text (dropWhile is_space rest))) \<and>
        clean_translation (label_translated_text @ colon # rest) =
          trim (replace_label label_translation (dropWhile is_space rest)) \<and>
        clean_translation (label_translation @ colon # rest) = trim rest \<and>
        replace_label label (label @ colon # rest) = dropWhile is_space rest) \<and>
     ((\<forall>c r. (c = 0xFF1A \<or> c = 0x3A) \<longrightarrow> s \<noteq> label @ c # r) \<longrightarrow>
        replace_label label s = s) \<and>
     ((\<forall>c r. (c = 0xFF1A \<or> c = 0x3A) \<longrightarrow>
          raw \<noteq> label_result @ c # r \<and>
          raw \<noteq> label_translated_text @ c # r \<and>
          raw \<noteq> label_translation @ c # r) \<longrightarrow>
        clean_translation raw = trim raw)"
proof -
  note h = translate_handler_miss_reply [of req t cache ollama d, OF assms]
  have tr: "translation (ollama_result (model_of req) d) = clean_translation (response d)"
    by (simp add: ollama_result_def)
  have labels: "colon = 0xFF1A \<or> colon = 0x3A \<longrightarrow>
        clean_translation (label_result @ colon # rest) =
          trim (replace_label label_translation
            (replace_label label_translated_text (dropWhile is_space rest))) \<and>
        clean_translation (label_translated_text @ colon # rest) =
          trim (replace_label label_translation (dropWhile is_space rest)) \<and>
        clean_translation (label_translation @ colon # rest) = trim rest \<and>
        replace_label label (label @ colon # rest) = dropWhile is_space rest"
    by (simp add: clean_translation_labels replace_label_match)
  have one: "(\<forall>c r. (c = 0xFF1A \<or> c = 0x3A) \<longrightarrow> s \<noteq> label @ c # r) \<longrightarrow>
        replace_label label s = s"
    using replace_label_nomatch [of s label] by blast
  have none: "(\<forall>c r. (c = 0xFF1A \<or> c = 0x3A) \<longrightarrow>
          raw \<noteq> label_result @ c # r \<and>
          raw \<noteq> label_translated_text @ c # r \<and>
          raw \<noteq> label_translation @ c # r) \<longrightarrow>
        clean_translation raw = trim raw"
    using clean_translation_no_label [of raw] by blast
  from h tr labels one none show ?thesis by blast
qed

theorem translation_labels_stripped_witness:
  "translate_handler (replying_runtime (label_result @ 0xFF1A # 0x20 # ni_hao)) Map.empty
       hello_request =
     (\<lparr>status = 200, body = Translated (example_result (js ''M'') ni_hao) False\<rparr>,
      [hello_key \<mapsto> example_result (js ''M'') ni_hao],
      [ollama_request_for (js ''Hello'') (js ''auto'') (js ''zh-tw'') (js ''M'')]) \<and>
   clean_translation (label_result @ 0xFF1A # 0x20 # ni_hao) = ni_hao \<and>
   clean_translation (label_translated_text @ 0x3A # 0x20 # ni_hao) = ni_hao \<and>
   clean_translation (label_translation @ 0xFF1A # 0x20 # ni_hao) = ni_hao \<and>
   replace_label label_translated_text (label_translated_text @ 0x3A # 0x20 # ni_hao) = ni_hao \<and>
   replace_label label_translated_text yi_wen_simplified = yi_wen_simplified \<and>
   clean_translation yi_wen_simplified = yi_wen_simplified \<and>
   clean_translation (js ''Translation result: Hello '') = js ''Translation result: Hello''"
proof -
  have len: "length (js ''Hello'') \<le> 10000" by (simp add: js_def)
  have sp: "is_space 0x20" "dropWhile is_space ni_hao = ni_hao" "trim ni_hao = ni_hao"
    "trim (0x20 # ni_hao) = ni_hao"
    by (simp_all add: ni_hao_def trim_def is_space_def)
  have rl: "replace_label label_translation ni_hao = ni_hao"
    "replace_label label_translated_text ni_hao = ni_hao"
    by (simp_all add: replace_label_def ni_hao_def label_translation_def
      label_translated_text_def)
  have res: "ollama_result (js ''M'') (example_data (label_result @ 0xFF1A # 0x20 # ni_hao)) =
      example_result (js ''M'') ni_hao"
    by (simp add: ollama_result_def example_data_def example_result_def
      clean_translation_labels(1) sp rl)
  have no_zh: "\<forall>c r. (c = 0xFF1A \<or> c = 0x3A) \<longrightarrow>
      yi_wen_simplified \<noteq> label_result @ c # r \<and>
      yi_wen_simplified \<noteq> label_translated_text @ c # r \<and>
      yi_wen_simplified \<noteq> label_translation @ c # r"
    by (simp add: yi_wen_simplified_def label_result_def label_translated_text_def
      label_translation_def)
  have no_en: "\<forall>c r. (c = 0xFF1A \<or> c = 0x3A) \<longrightarrow>
      js ''Translation result: Hello '' \<noteq> label_result @ c # r \<and>
      js ''Translation result: Hello '' \<noteq> label_translated_text @ c # r \<and>
      js ''Translation result: Hello '' \<noteq> label_translation @ c # r"
    by (simp add: js_def label_result_def label_translated_text_def label_translation_def)
  have tr: "trim yi_wen_simplified = yi_wen_simplified"
    "trim (js ''Translation result: Hello '') = js ''Translation result: Hello''"
    by (simp_all add: yi_wen_simplified_def js_def trim_def is_space_def)
  note th = translation_labels_stripped [OF hello_request_simps(1) trim_Hello len,
      where cache = Map.empty and rest = "0x20 # ni_hao"
        and ollama = "replying_runtime (label_result @ 0xFF1A # 0x20 # ni_hao)"
        and d = "example_data (label_result @ 0xFF1A # 0x20 # ni_hao)"
        and label = label_translated_text and s = yi_wen_simplified]
  from th [where colon = "0xFF1A" and raw = yi_wen_simplified]
    th [where colon = "0x3A" and raw = "js ''Translation result: Hello ''"]
    no_zh no_en
  show ?thesis
    by (simp add: hello_request_simps hello_key_def replying_runtime_def sp rl res tr)
qed

section \<open>Cache key collisions\<close>

lemma fox_distinct: "fox_dog \<noteq> fox_cat"
  by (simp add: fox_dog_def fox_cat_def js_def)

lemma fox_key_prefix:
  "take 50 (base64 (utf8_encode fox_dog)) = take 50 (base64 (utf8_encode fox_cat))"
  by (simp add: fox_dog_def fox_cat_def js_def base64_char_def)

lemma fox_valid:
  "trim fox_dog \<noteq> []" "length fox_dog \<le> 10000"
  "trim fox_cat \<noteq> []" "length fox_cat \<le> 10000"
  by (simp_all add: fox_dog_def fox_cat_def js_def trim_nonspace is_space_def)

lemma request_text_update:
  "model_of (req\<lparr>body_text := x\<rparr>) = model_of req"
  "source_lang_of (req\<lparr>body_text := x\<rparr>) = source_lang_of req"
  "target_lang_of (req\<lparr>body_text := x\<rparr>) = target_lang_of req"
  "body_text (req\<lparr>body_text := x\<rparr>) = x"
  by (simp_all add: model_of_def source_lang_of_def target_lang_of_def)

text \<open>
  Claim C6: there are distinct texts with equal cache keys for the same model, source and
  target language, because only the first 50 characters of the base64 text of the UTF-8
  encoding enter the key; so a Translate of the second text after a Translate of the first
  that was cached returns the first text's translation from the cache, whatever the
  runtime would answer.
\<close>

theorem cacheKey_collision:
  "fox_dog \<noteq> fox_cat \<and>
   cacheKey m src tgt fox_dog = cacheKey m src tgt fox_cat \<and>
   (body_text req = Some fox_dog \<and>
    cache (cacheKey (model_of req) (source_lang_of req) (target_lang_of req) fox_dog) = None \<and>
    ollama (ollama_request_for fox_dog (source_lang_of req) (target_lang_of req) (model_of req))
      = Inr d \<longrightarrow>
      translate_handler ollama cache req =
        (\<lparr>status = 200, body = Translated (ollama_result (model_of req) d) False\<rparr>,
         cache(cacheKey (model_of req) (source_lang_of req) (target_lang_of req) fox_dog \<mapsto>
           ollama_result (model_of req) d),
         [ollama_request_for fox_dog (source_lang_of req) (target_lang_of req) (model_of req)]) \<and>
      translate_handler ollama'
          (cache(cacheKey (model_of req) (source_lang_of req) (target_lang_of req) fox_dog \<mapsto>
             ollama_result (model_of req) d))
          (req\<lparr>body_text := Some fox_cat\<rparr>) =
        (\<lparr>status = 200, body = Translated (ollama_result (model_of req) d) True\<rparr>,
         cache(cacheKey (model_of req) (source_lang_of req) (target_lang_of req) fox_dog \<mapsto>
           ollama_result (model_of req) d),
         []))"
proof -
  have key: "cacheKey m src tgt fox_dog = cacheKey m src tgt fox_cat" for m src tgt
    by (simp add: cacheKey_def fox_key_prefix)
  have second: "translate_handler ollama'
          (cache(cacheKey (model_of req) (source_lang_of req) (target_lang_of req) fox_dog \<mapsto> r))
          (req\<lparr>body_text := Some fox_cat\<rparr>) =
        (\<lparr>status = 200, body = Translated r True\<rparr>,
         cache(cacheKey (model_of req) (source_lang_of req) (target_lang_of req) fox_dog \<mapsto> r),
         [])" for r
    by (rule translate_handler_hit [where t = fox_cat])
      (simp_all add: request_text_update fox_valid key)
  show ?thesis
    using fox_distinct key second
    by (simp add: translate_handler_miss_reply fox_valid)
qed

theorem cacheKey_collision_witness:
  "fox_dog \<noteq> fox_cat \<and>
   cacheKey (js ''M'') (js ''en'') (js ''zh-tw'') fox_dog =
     js ''M_en_zh-tw_VGhlIHF1aWNrIGJyb3duIGZveCBqdW1wcyBvdmVyIHRoZSBsYX'' \<and>
   cacheKey (js ''M'') (js ''en'') (js ''zh-tw'') fox_cat =
     js ''M_en_zh-tw_VGhlIHF1aWNrIGJyb3duIGZveCBqdW1wcyBvdmVyIHRoZSBsYX'' \<and>
   translate_handler (replying_runtime dog_translation) Map.empty fox_request =
     (\<lparr>status = 200, body = Translated (example_result (js ''M'') dog_translation) False\<rparr>,
      [cacheKey (js ''M'') (js ''en'') (js ''zh-tw'') fox_dog \<mapsto>
         example_result (js ''M'') dog_translation],
      [ollama_request_for fox_dog (js ''en'') (js ''zh-tw'') (js ''M'')]) \<and>
   translate_handler unreachable_runtime
       [cacheKey (js ''M'') (js ''en'') (js ''zh-tw'') fox_dog \<mapsto>
          example_result (js ''M'') dog_translation]
       (fox_request\<lparr>body_text := Some fox_cat\<rparr>) =
     (\<lparr>status = 200, body = Translated (example_result (js ''M'') dog_translation) True\<rparr>,
      [cacheKey (js ''M'') (js ''en'') (js ''zh-tw'') fox_dog \<mapsto>
         example_result (js ''M'') dog_translation],
      [])"
proof -
  have r: "body_text fox_request = Some fox_dog"
    "model_of fox_request = js ''M''"
    "source_lang_of fox_request = js ''en''"
    "target_lang_of fox_request = js ''zh-tw''"
    by (simp_all add: fox_request_def model_of_def source_lang_of_def target_lang_of_def)
  have res: "ollama_result (js ''M'') (example_data dog_translation) =
      example_result (js ''M'') dog_translation"
    by (simp add: ollama_result_def example_data_def example_result_def dog_translation_def
      clean_translation_def replace_label_def label_result_def label_translated_text_def
      label_translation_def trim_def is_space_def)
  have k1: "cacheKey (js ''M'') (js ''en'') (js ''zh-tw'') fox_dog =
     js ''M_en_zh-tw_VGhlIHF1aWNrIGJyb3duIGZveCBqdW1wcyBvdmVyIHRoZSBsYX''"
    by (simp add: cacheKey_def fox_dog_def js_def base64_char_def)
  have k2: "cacheKey (js ''M'') (js ''en'') (js ''zh-tw'') fox_cat =
     js ''M_en_zh-tw_VGhlIHF1aWNrIGJyb3duIGZveCBqdW1wcyBvdmVyIHRoZSBsYX''"
    by (simp add: cacheKey_def fox_cat_def js_def base64_char_def)
  from cacheKey_collision [where req = fox_request and cache = Map.empty
      and ollama = "replying_runtime dog_translation" and ollama' = unreachable_runtime
      and d = "example_data dog_translation"
      and m = "js ''M''" and src = "js ''en''" and tgt = "js ''zh-tw''"]
  show ?thesis
    by (simp add: r res k1 k2 replying_runtime_def)
qed

section \<open>Properties of \<^verbatim>\<open>translateWebPage\<close>\<close>

lemmas translateWebPage_eval =
  translateWebPage_def LocalAITranslator_batchTranslate_def shouldTranslate_eval trim_def
  Let_def

text \<open>
  Claim C3 says that the \<open>i\<close>-th eligible text node is replaced with the block built
  from the \<open>i\<close>-th batch result whenever that result is successful.  In the code the
  counter into the results advances only after a success, so once a result has failed,
  every later eligible node is compared with that same failed result: for two eligible
  nodes whose results are a failure and a success, the second node is left as it is.
\<close>

theorem translateWebPage_stops_at_first_failure:
  "translateWebPage first_fails_post [js ''Hello world'', js ''Good morning''] =
     (PageTranslated 0 2, [TextNode (js ''Hello world''), TextNode (js ''Good morning'')]) \<and>
   item_success (ItemResult 1 (example_result (js ''qwen2:7b-instruct'') zao_an))"
  by (simp add: translateWebPage_eval first_fails_post_def example_result_def)

section \<open>Properties of \<^verbatim>\<open>POST /api/translate/batch\<close>\<close>

lemma translate_item_index:
  "item_index (fst (translate_item ollama c s t m idx text)) = idx"
  by (simp add: translate_item_def Let_def split: option.split sum.split)

lemma translate_item_failure:
  "fst (translate_item ollama c s t m idx text) = ItemFailure j e txt \<Longrightarrow>
   j = idx \<and> txt = text \<and>
   (\<exists>message. e = TranslateFailed message \<and> ollama (ollama_request_for text s t m) = Inl message)"
  by (auto simp: translate_item_def translateWithOllama_def Let_def
      split: option.splits sum.splits)

lemma translate_item_fails:
  "c (cacheKey m s t text) = None \<Longrightarrow> ollama (ollama_request_for text s t m) = Inl message \<Longrightarrow>
   fst (translate_item ollama c s t m idx text) = ItemFailure idx (TranslateFailed message) text"
  by (simp add: translate_item_def translateWithOllama_def Let_def)

lemma translate_item_store:
  "fst (snd (translate_item ollama c s t m idx text)) = Some (k, r) \<Longrightarrow>
   k = cacheKey m s t text \<and> (\<exists>d. ollama (ollama_request_for text s t m) = Inr d)"
  by (auto simp: translate_item_def translateWithOllama_def Let_def
      split: option.splits sum.splits)

lemma run_batch_results:
  "fst (run_batch ollama lat c s t m i batch) =
     map (\<lambda>(index, text). fst (translate_item ollama c s t m (i + index) text))
       (enumerate 0 batch)"
  by (simp add: run_batch_def Let_def split_def)

lemma run_batch_length: "length (fst (run_batch ollama lat c s t m i batch)) = length batch"
  by (simp add: run_batch_results)

lemma run_batch_nth:
  "k < length batch \<Longrightarrow>
   fst (run_batch ollama lat c s t m i batch) ! k =
     fst (translate_item ollama c s t m (i + k) (batch ! k))"
  by (simp add: run_batch_results nth_enumerate_eq)


text \<open>
  The loop over the groups, for any property \<open>P\<close> of the cache that every group
  preserves: the results are one per text, and the result at \<open>j\<close> is that of the callback
  for the text at \<open>j\<close> against a cache with \<open>P\<close>.
\<close>

lemma batch_loop_items:
  assumes "batch_loop ollama lat s t m texts i results cache reqs = (out, c', r')"
    and "length results = min i (length texts)"
    and "P cache"
    and step: "\<And>c j. P c \<Longrightarrow> j < length texts \<Longrightarrow>
                 P (fst (snd (run_batch ollama lat c s t m j (take 5 (drop j texts)))))"
  shows "length out = length texts \<and> take (length results) out = results \<and>
         (\<forall>j. length results \<le> j \<and> j < length texts \<longrightarrow>
            (\<exists>c. P c \<and> out ! j = fst (translate_item ollama c s t m j (texts ! j))))"
  using assms
proof (induction ollama lat s t m texts i results cache reqs rule: batch_loop.induct)
  case (1 ollama lat s t m texts i results cache reqs)
  show ?case
  proof (cases "i < length texts")
    case False
    with "1.prems" show ?thesis
      by (auto simp: batch_loop.simps)
  next
    case True
    define batch where "batch = take 5 (drop i texts)"
    obtain bR c1 rq1 where rb: "run_batch ollama lat cache s t m i batch = (bR, c1, rq1)"
      by (cases "run_batch ollama lat cache s t m i batch") auto
    have lenR: "length results = i" using True "1.prems"(2) by simp
    have lenB: "length bR = length batch"
      using run_batch_length [of ollama lat cache s t m i batch] rb by simp
    have lenb: "length batch = min 5 (length texts - i)"
      by (simp add: batch_def)
    have Pc1: "P c1"
      using "1.prems"(4) [OF "1.prems"(3) True] rb by (simp add: batch_def)
    have rec: "batch_loop ollama lat s t m texts (i + 5) (results @ bR) c1 (reqs @ rq1) =
        (out, c', r')"
      using "1.prems"(1) True rb by (simp add: batch_loop.simps [of _ _ _ _ _ _ i] batch_def)
    have len': "length (results @ bR) = min (i + 5) (length texts)"
      using lenR lenB lenb True by simp
    from "1.IH" [OF True rb [unfolded batch_def, symmetric] refl rec len' Pc1 "1.prems"(4)]
    have IH: "length out = length texts"
      "take (length (results @ bR)) out = results @ bR"
      "\<And>j. length (results @ bR) \<le> j \<Longrightarrow> j < length texts \<Longrightarrow>
         \<exists>c. P c \<and> out ! j = fst (translate_item ollama c s t m j (texts ! j))"
      by blast+
    have tk: "take (length results) out = results"
    proof -
      have "take (length results) out = take (length results) (take (length (results @ bR)) out)"
        by (simp add: min_def)
      also have "\<dots> = results" by (simp only: IH(2)) simp
      finally show ?thesis .
    qed
    have items: "\<exists>c. P c \<and> out ! j = fst (translate_item ollama c s t m j (texts ! j))"
      if j: "length results \<le> j" "j < length texts" for j
    proof (cases "j < length (results @ bR)")
      case False
      with IH(3) [of j] j show ?thesis by simp
    next
      case inb: True
      have "out ! j = take (length (results @ bR)) out ! j"
        using inb by simp
      also have "\<dots> = (results @ bR) ! j"
        by (simp only: IH(2))
      also have "\<dots> = bR ! (j - i)"
        using j(1) lenR by (simp add: nth_append)
      also have "\<dots> = fst (translate_item ollama cache s t m (i + (j - i)) (batch ! (j - i)))"
        using run_batch_nth [of "j - i" batch ollama lat cache s t m i] rb inb lenR lenB j(1)
        by simp
      also have "batch ! (j - i) = texts ! j"
        using inb lenR lenB j by (simp add: batch_def)
      finally show ?thesis
        using "1.prems"(3) j(1) lenR by auto
    qed
    from IH(1) tk items show ?thesis by blast
  qed
qed


text \<open>A key stays absent from the cache while no result is stored under it.\<close>

lemma fold_store_absent:
  "c k = None \<Longrightarrow> \<forall>x\<in>set xs. \<forall>r. fst (snd (snd x)) \<noteq> Some (k, r) \<Longrightarrow>
   fold store_result xs c k = None"
proof (induction xs arbitrary: c)
  case Nil
  then show ?case by simp
next
  case (Cons x xs)
  have "store_result x c k = None"
    using Cons.prems by (auto simp: store_result_def split: option.splits)
  with Cons show ?case by simp
qed

lemma run_batch_absent:
  assumes "c k = None"
    and "\<forall>text\<in>set batch. cacheKey m s t text = k \<longrightarrow> isl (ollama (ollama_request_for text s t m))"
  shows "fst (snd (run_batch ollama lat c s t m i batch)) k = None"
proof -
  define outcomes where "outcomes =
    map (\<lambda>(index, text). translate_item ollama c s t m (i + index) text) (enumerate 0 batch)"
  have no_store: "fst (snd (snd x)) \<noteq> Some (k, r)"
    if "x \<in> set (enumerate 0 outcomes)" for x r
  proof
    assume st: "fst (snd (snd x)) = Some (k, r)"
    from that have "fst x < length outcomes" and "outcomes ! fst x = snd x"
      by (auto simp: in_set_enumerate_eq)
    then have "snd x \<in> set outcomes"
      using nth_mem by metis
    then obtain p where p: "p \<in> set (enumerate 0 batch)"
      and xp: "snd x = (\<lambda>(index, text). translate_item ollama c s t m (i + index) text) p"
      by (auto simp: outcomes_def)
    obtain index u where pu: "p = (index, u)" by (cases p)
    from p pu have "index < length batch" and "batch ! index = u"
      by (auto simp: in_set_enumerate_eq)
    then have "u \<in> set batch" using nth_mem by metis
    from xp pu have x: "snd x = translate_item ollama c s t m (i + index) u" by simp
    from translate_item_store [of ollama c s t m "i + index" u k r] st x
    have "k = cacheKey m s t u" and "\<exists>d. ollama (ollama_request_for u s t m) = Inr d"
      by simp_all
    with assms(2) \<open>u \<in> set batch\<close> show False by auto
  qed
  have "fold store_result
      (sort_key (\<lambda>(index, outcome). lat (i + index)) (enumerate 0 outcomes)) c k = None"
    by (rule fold_store_absent [of c k, OF assms(1)]) (simp add: no_store)
  then show ?thesis
    by (simp add: run_batch_def Let_def outcomes_def)
qed

lemma batchTranslate_items:
  assumes "batchTranslate ollama lat cache texts s t m = (out, c', r')"
    and "P cache"
    and "\<And>c j. P c \<Longrightarrow> j < length texts \<Longrightarrow>
           P (fst (snd (run_batch ollama lat c s t m j (take 5 (drop j texts)))))"
  shows "length out = length texts \<and> map item_index out = [0..<length texts] \<and>
         (\<forall>j<length texts.
            \<exists>c. P c \<and> out ! j = fst (translate_item ollama c s t m j (texts ! j)))"
proof -
  obtain res where loop: "batch_loop ollama lat s t m texts 0 [] cache [] = (res, c', r')"
    and out: "out = sort_key item_index res"
    using assms(1) by (auto simp: batchTranslate_def split: prod.splits)
  from batch_loop_items [OF loop _ assms(2,3)]
  have len: "length res = length texts"
    and items: "\<And>j. j < length texts \<Longrightarrow>
      \<exists>c. P c \<and> res ! j = fst (translate_item ollama c s t m j (texts ! j))"
    by auto
  have idx: "map item_index res = [0..<length texts]"
  proof (rule nth_equalityI)
    show "length (map item_index res) = length [0..<length texts]" by (simp add: len)
  next
    fix j assume "j < length (map item_index res)"
    then have j: "j < length texts" by (simp add: len)
    from items [OF j] obtain c where
      "res ! j = fst (translate_item ollama c s t m j (texts ! j))" by blast
    with j show "map item_index res ! j = [0..<length texts] ! j"
      by (simp add: len translate_item_index)
  qed
  then have "sorted (map item_index res)" by simp
  then have "out = res" by (simp add: out sort_key_id_if_sorted)
  with len idx items show ?thesis by simp
qed

text \<open>
  Claim C5: for every array of 1 to 50 texts and every order in which the runtime's
  replies arrive, BatchTranslate returns one result per text, the result at position \<open>i\<close>
  carrying the index \<open>i\<close> and being what the callback yields for the text at \<open>i\<close> alone;
  a failed result is the failure of the runtime on that very text and carries the text as
  its translation; and a text on which the runtime fails (and for whose key the cache
  has, and can get, no entry) does yield such a failed result, the other results being
  unaffected.
\<close>

theorem batch_results_in_input_order:
  assumes "body_texts req = Some texts" and "1 \<le> length texts" and "length texts \<le> 50"
  shows
    "\<exists>results cache' requests.
       batch_handler ollama latency cache req =
         (\<lparr>status = 200, body = Batch results (length texts)\<rparr>, cache', requests) \<and>
       length results = length texts \<and>
       map item_index results = [0..<length texts] \<and>
       (\<forall>i<length texts. \<exists>c.
          results ! i =
            fst (translate_item ollama c (source_lang_of req) (target_lang_of req) (model_of req)
              i (texts ! i))) \<and>
       (\<forall>i<length texts. \<forall>j e txt.
          results ! i = ItemFailure j e txt \<longrightarrow>
            txt = texts ! i \<and>
            (\<exists>message. e = TranslateFailed message \<and>
               ollama (ollama_request_for (texts ! i) (source_lang_of req) (target_lang_of req)
                 (model_of req)) = Inl message)) \<and>
       (\<forall>i<length texts. \<forall>message.
          ollama (ollama_request_for (texts ! i) (source_lang_of req) (target_lang_of req)
            (model_of req)) = Inl message \<and>
          cache (cacheKey (model_of req) (source_lang_of req) (target_lang_of req) (texts ! i))
            = None \<and>
          (\<forall>j<length texts.
             cacheKey (model_of req) (source_lang_of req) (target_lang_of req) (texts ! j) =
             cacheKey (model_of req) (source_lang_of req) (target_lang_of req) (texts ! i) \<longrightarrow>
             isl (ollama (ollama_request_for (texts ! j) (source_lang_of req)
               (target_lang_of req) (model_of req)))) \<longrightarrow>
          results ! i = ItemFailure i (TranslateFailed message) (texts ! i))"
proof -
  define s where "s = source_lang_of req"
  define t where "t = target_lang_of req"
  define m where "m = model_of req"
  obtain results cache' requests where
    bt: "batchTranslate ollama latency cache texts s t m = (results, cache', requests)"
    by (cases "batchTranslate ollama latency cache texts s t m") auto
  have handler: "batch_handler ollama latency cache req =
      (\<lparr>status = 200, body = Batch results (length texts)\<rparr>, cache', requests)"
    using assms bt by (auto simp: batch_handler_def Let_def s_def t_def m_def)
  from batchTranslate_items [OF bt, of "\<lambda>c. True"]
  have len: "length results = length texts"
    and idx: "map item_index results = [0..<length texts]"
    and items: "\<And>i. i < length texts \<Longrightarrow>
      \<exists>c. results ! i = fst (translate_item ollama c s t m i (texts ! i))"
    by auto
  have shape: "u = texts ! i \<and>
      (\<exists>message. e = TranslateFailed message \<and>
         ollama (ollama_request_for (texts ! i) s t m) = Inl message)"
    if "i < length texts" and "results ! i = ItemFailure j e u" for i j e u
  proof -
    from items [OF that(1)] obtain c where
      "results ! i = fst (translate_item ollama c s t m i (texts ! i))" by blast
    with that(2) translate_item_failure [of ollama c s t m i "texts ! i" j e u]
    show ?thesis by simp
  qed
  have fails: "results ! i = ItemFailure i (TranslateFailed message) (texts ! i)"
    if i: "i < length texts"
      and f: "ollama (ollama_request_for (texts ! i) s t m) = Inl message"
      and absent: "cache (cacheKey m s t (texts ! i)) = None"
      and same: "\<forall>j<length texts. cacheKey m s t (texts ! j) = cacheKey m s t (texts ! i) \<longrightarrow>
          isl (ollama (ollama_request_for (texts ! j) s t m))"
    for i message
  proof -
    define k where "k = cacheKey m s t (texts ! i)"
    have step: "fst (snd (run_batch ollama latency c s t m j (take 5 (drop j texts)))) k = None"
      if "c k = None" for c j
    proof (rule run_batch_absent [of c k, OF that])
      show "\<forall>text\<in>set (take 5 (drop j texts)).
          cacheKey m s t text = k \<longrightarrow> isl (ollama (ollama_request_for text s t m))"
      proof (intro ballI impI)
        fix u assume "u \<in> set (take 5 (drop j texts))" and key: "cacheKey m s t u = k"
        then have "u \<in> set texts"
          by (meson in_set_takeD in_set_dropD)
        then obtain j' where "j' < length texts" and "texts ! j' = u"
          by (auto simp: in_set_conv_nth)
        with same key show "isl (ollama (ollama_request_for u s t m))"
          by (auto simp: k_def)
      qed
    qed
    from batchTranslate_items [OF bt, of "\<lambda>c. c k = None"] absent step i
    obtain c where "c k = None"
      and "results ! i = fst (translate_item ollama c s t m i (texts ! i))"
      by (auto simp: k_def)
    with f show ?thesis
      by (simp add: translate_item_fails k_def)
  qed
  from items have each: "\<forall>i<length texts. \<exists>c.
      results ! i = fst (translate_item ollama c s t m i (texts ! i))"
    by blast
  from handler len idx each shape fails show ?thesis
    unfolding s_def t_def m_def by blast
qed

lemma abc_items:
  "fst (translate_item (failing_on (js ''b'')) Map.empty (js ''auto'') (js ''zh-tw'') abc_model i (js ''a''))
     = ItemResult i (example_result abc_model (js ''a-zh''))"
  "fst (translate_item (failing_on (js ''b'')) Map.empty (js ''auto'') (js ''zh-tw'') abc_model i (js ''b''))
     = ItemFailure i (TranslateFailed (js ''timeout of 30000ms exceeded'')) (js ''b'')"
  "fst (translate_item (failing_on (js ''b'')) Map.empty (js ''auto'') (js ''zh-tw'') abc_model i (js ''c''))
     = ItemResult i (example_result abc_model (js ''c-zh''))"
  by (simp_all add: translate_item_def translateWithOllama_def failing_on_def
      ollama_request_for_def getTranslationPrompt_def ollama_result_def example_data_def
      example_result_def clean_translation_def replace_label_def label_result_def
      label_translated_text_def label_translation_def trim_def is_space_def js_def
      split: list.split)

lemma abc_batch:
  "batchTranslate (failing_on (js ''b'')) (\<lambda>i. 2 - i) Map.empty
      [js ''a'', js ''b'', js ''c''] (js ''auto'') (js ''zh-tw'') abc_model =
   (abc_results,
    [cacheKey abc_model (js ''auto'') (js ''zh-tw'') (js ''c'') \<mapsto>
       example_result abc_model (js ''c-zh''),
     cacheKey abc_model (js ''auto'') (js ''zh-tw'') (js ''a'') \<mapsto>
       example_result abc_model (js ''a-zh'')],
    [ollama_request_for (js ''a'') (js ''auto'') (js ''zh-tw'') abc_model,
     ollama_request_for (js ''b'') (js ''auto'') (js ''zh-tw'') abc_model,
     ollama_request_for (js ''c'') (js ''auto'') (js ''zh-tw'') abc_model])"
  by (simp add: batchTranslate_def batch_loop.simps run_batch_def enumerate_eq_zip Let_def
      abc_results_def store_result_def
      translate_item_def translateWithOllama_def failing_on_def
      ollama_request_for_def getTranslationPrompt_def ollama_result_def example_data_def
      example_result_def clean_translation_def replace_label_def label_result_def
      label_translated_text_def label_translation_def trim_def is_space_def js_def
      split: list.split)


theorem batch_results_in_input_order_witness:
  "body_texts (batch_request [js ''a'', js ''b'', js ''c'']) = Some [js ''a'', js ''b'', js ''c''] \<and>
   1 \<le> length [js ''a'', js ''b'', js ''c''] \<and> length [js ''a'', js ''b'', js ''c''] \<le> 50 \<and>
   batch_handler (failing_on (js ''b'')) (\<lambda>i. 2 - i) Map.empty
       (batch_request [js ''a'', js ''b'', js ''c'']) =
     (\<lparr>status = 200,
       body = Batch
         [ItemResult 0 (example_result abc_model (js ''a-zh'')),
          ItemFailure 1 (TranslateFailed (js ''timeout of 30000ms exceeded'')) (js ''b''),
          ItemResult 2 (example_result abc_model (js ''c-zh''))] 3\<rparr>,
      [cacheKey abc_model (js ''auto'') (js ''zh-tw'') (js ''c'') \<mapsto>
         example_result abc_model (js ''c-zh''),
       cacheKey abc_model (js ''auto'') (js ''zh-tw'') (js ''a'') \<mapsto>
         example_result abc_model (js ''a-zh'')],
      [ollama_request_for (js ''a'') (js ''auto'') (js ''zh-tw'') abc_model,
       ollama_request_for (js ''b'') (js ''auto'') (js ''zh-tw'') abc_model,
       ollama_request_for (js ''c'') (js ''auto'') (js ''zh-tw'') abc_model]) \<and>
   failing_on (js ''b'') (ollama_request_for (js ''b'') (js ''auto'') (js ''zh-tw'') abc_model) =
     Inl (js ''timeout of 30000ms exceeded'') \<and>
   cacheKey abc_model (js ''auto'') (js ''zh-tw'') (js ''a'') \<noteq>
     cacheKey abc_model (js ''auto'') (js ''zh-tw'') (js ''b'') \<and>
   cacheKey abc_model (js ''auto'') (js ''zh-tw'') (js ''c'') \<noteq>
     cacheKey abc_model (js ''auto'') (js ''zh-tw'') (js ''b'')"
proof -
  have keys: "cacheKey abc_model (js ''auto'') (js ''zh-tw'') (js ''a'') \<noteq>
      cacheKey abc_model (js ''auto'') (js ''zh-tw'') (js ''b'')"
    "cacheKey abc_model (js ''auto'') (js ''zh-tw'') (js ''c'') \<noteq>
      cacheKey abc_model (js ''auto'') (js ''zh-tw'') (js ''b'')"
    by (simp_all add: cacheKey_def js_def base64_char_def)
  have fails: "failing_on (js ''b'')
      (ollama_request_for (js ''b'') (js ''auto'') (js ''zh-tw'') abc_model) =
      Inl (js ''timeout of 30000ms exceeded'')"
    by (simp add: failing_on_def ollama_request_for_def getTranslationPrompt_def)
  have r: "body_texts (batch_request [js ''a'', js ''b'', js ''c'']) =
      Some [js ''a'', js ''b'', js ''c'']"
    "model_of (batch_request [js ''a'', js ''b'', js ''c'']) = abc_model"
    "source_lang_of (batch_request [js ''a'', js ''b'', js ''c'']) = js ''auto''"
    "target_lang_of (batch_request [js ''a'', js ''b'', js ''c'']) = js ''zh-tw''"
    by (simp_all add: batch_request_def model_of_def source_lang_of_def target_lang_of_def
      abc_model_def)
  have len: "1 \<le> length [js ''a'', js ''b'', js ''c'']"
    "length [js ''a'', js ''b'', js ''c''] \<le> 50"
    by simp_all
  from batch_results_in_input_order [OF r(1) len,
      where ollama = "failing_on (js ''b'')" and latency = "\<lambda>i. 2 - i" and cache = Map.empty]
  obtain results cache' requests where
    "batch_handler (failing_on (js ''b'')) (\<lambda>i. 2 - i) Map.empty
       (batch_request [js ''a'', js ''b'', js ''c'']) =
     (\<lparr>status = 200, body = Batch results (length [js ''a'', js ''b'', js ''c''])\<rparr>,
      cache', requests)"
    by blast
  moreover have "batch_handler (failing_on (js ''b'')) (\<lambda>i. 2 - i) Map.empty
       (batch_request [js ''a'', js ''b'', js ''c'']) =
     (\<lparr>status = 200, body = Batch abc_results (length [js ''a'', js ''b'', js ''c''])\<rparr>,
      [cacheKey abc_model (js ''auto'') (js ''zh-tw'') (js ''c'') \<mapsto>
         example_result abc_model (js ''c-zh''),
       cacheKey abc_model (js ''auto'') (js ''zh-tw'') (js ''a'') \<mapsto>
         example_result abc_model (js ''a-zh'')],
      [ollama_request_for (js ''a'') (js ''auto'') (js ''zh-tw'') abc_model,
       ollama_request_for (js ''b'') (js ''auto'') (js ''zh-tw'') abc_model,
       ollama_request_for (js ''c'') (js ''auto'') (js ''zh-tw'') abc_model])"
    by (simp add: batch_handler_def Let_def r abc_batch)
  ultimately show ?thesis
    using r(1) keys fails by (simp add: abc_results_def)
qed

end
